theory Spec2Isabelle
  imports Main "HOL-Library.AList"
begin


section \<open>JavaScript values as the IPC provider backend sees them\<close>

text \<open>
  The backend (\<^verbatim>\<open>ipcProviderBackend.js\<close>) works on values produced by \<^verbatim>\<open>JSON.parse\<close> and on
  the plain objects of its \<^verbatim>\<open>ERRORS\<close> table. A value is one of the JSON kinds, or
  \<^verbatim>\<open>undefined\<close> (what reading a missing property gives, and what \<^verbatim>\<open>e.id = item.id\<close> stores
  when the request has no id). An object is an association list in insertion order; a property
  is read through \<open>map_of\<close>, written with \<open>AList.update\<close> and deleted with \<open>AList.delete\<close>.
  (JavaScript enumerates keys that are numerals before the others; this changes the order of
  the fields in the encoded text only, and no statement below depends on it.) This module
  never computes with a number: it tests numbers for truthiness and turns them into strings.
  So a number is known by the text JavaScript prints for it (\<^verbatim>\<open>7\<close>, \<^verbatim>\<open>-32603\<close>, \<^verbatim>\<open>0.5\<close>,
  \<^verbatim>\<open>1e+21\<close>), which tells two numbers apart except \<^verbatim>\<open>0\<close> and \<^verbatim>\<open>-0\<close>, both printed \<^verbatim>\<open>0\<close> and
  both falsy. Strings are lists of 8-bit characters.
\<close>

datatype jsval =
    Undefined
  | Null
  | Bool bool
  | Num string
  | Str string
  | Arr "jsval list"
  | Obj "(string \<times> jsval) list"

text \<open>
  What a \<^verbatim>\<open>throw\<close> or a rejected promise carries: any value (the backend throws the objects of
  \<^verbatim>\<open>ERRORS\<close> and \<^verbatim>\<open>finalPayload.error\<close>), or one of the runtime's own errors with its message
  (the wording of a message is the engine's; the \<^verbatim>\<open>TypeError\<close>s below have V8's).
\<close>

datatype exn =
    Thrown jsval
  | TypeError string
  | SyntaxError string

fun truthy :: "jsval \<Rightarrow> bool" where
  "truthy Undefined = False"
| "truthy Null = False"
| "truthy (Bool b) = b"
| "truthy (Num n) = (n \<noteq> ''0'' \<and> n \<noteq> ''NaN'')"
| "truthy (Str s) = (s \<noteq> [])"
| "truthy (Arr xs) = True"
| "truthy (Obj ps) = True"

fun isArray :: "jsval \<Rightarrow> bool" where
  "isArray (Arr xs) = True"
| "isArray v = False"

subsection \<open>Conversion to string\<close>

definition digitChar :: "nat \<Rightarrow> char" where
  "digitChar d = ''0123456789'' ! d"

function showNat :: "nat \<Rightarrow> string" where
  "showNat n = (if n < 10 then [digitChar n] else showNat (n div 10) @ [digitChar (n mod 10)])"
  by pat_completeness auto
termination
  by (relation "measure id") auto

fun joinComma :: "string list \<Rightarrow> string" where
  "joinComma [] = []"
| "joinComma [s] = s"
| "joinComma (s # t # ss) = s @ CHR '','' # joinComma (t # ss)"

text \<open>
  \<^verbatim>\<open>Array.prototype.join\<close> on the texts of the elements: the first element that cannot be
  converted throws.
\<close>

fun joinAll :: "(exn + string) list \<Rightarrow> exn + string list" where
  "joinAll [] = Inr []"
| "joinAll (Inl x # rs) = Inl x"
| "joinAll (Inr s # rs) = (case joinAll rs of Inl x \<Rightarrow> Inl x | Inr ss \<Rightarrow> Inr (s # ss))"

text \<open>
  The string a value turns into when it is concatenated to a string (\<^verbatim>\<open>"'" + item.method + "'"\<close>)
  or used as a property key (\<^verbatim>\<open>this._processors[finalPayload.method]\<close>). An array is joined
  with commas, \<^verbatim>\<open>null\<close> and \<^verbatim>\<open>undefined\<close> elements giving the empty text. An object parsed from
  JSON is \<^verbatim>\<open>[object Object]\<close>, unless it has a property of its own named \<^verbatim>\<open>toString\<close>: that
  property, a JSON value, hides \<^verbatim>\<open>Object.prototype.toString\<close> and cannot be called, \<^verbatim>\<open>valueOf\<close>
  does not give a primitive either, and the conversion throws a \<^verbatim>\<open>TypeError\<close>.
\<close>

fun toString :: "jsval \<Rightarrow> exn + string" where
  "toString Undefined = Inr ''undefined''"
| "toString Null = Inr ''null''"
| "toString (Bool b) = Inr (if b then ''true'' else ''false'')"
| "toString (Num n) = Inr n"
| "toString (Str s) = Inr s"
| "toString (Arr xs) =
     (case joinAll (map (\<lambda>x. case x of Undefined \<Rightarrow> Inr [] | Null \<Rightarrow> Inr [] | _ \<Rightarrow> toString x) xs) of
        Inl x \<Rightarrow> Inl x
      | Inr ss \<Rightarrow> Inr (joinComma ss))"
| "toString (Obj ps) =
     (if ''toString'' \<in> set (map fst ps)
      then Inl (TypeError ''Cannot convert object to primitive value'')
      else Inr ''[object Object]'')"

subsection \<open>Properties\<close>

definition lookupProp :: "(string \<times> jsval) list \<Rightarrow> string \<Rightarrow> jsval" where
  "lookupProp ps k = (case map_of ps k of None \<Rightarrow> Undefined | Some v \<Rightarrow> v)"

definition typeErrorRead :: "string \<Rightarrow> jsval \<Rightarrow> exn" where
  "typeErrorRead k v =
     TypeError (''Cannot read property '' @ [CHR 0x27] @ k @ [CHR 0x27] @ '' of '' @
                (case v of Null \<Rightarrow> ''null'' | _ \<Rightarrow> ''undefined''))"

text \<open>
  \<^verbatim>\<open>v.k\<close> for the property names this module reads (\<^verbatim>\<open>method\<close>, \<^verbatim>\<open>id\<close>, \<^verbatim>\<open>error\<close>,
  \<^verbatim>\<open>result\<close>, \<^verbatim>\<open>message\<close>, \<^verbatim>\<open>code\<close>): none of them is a built-in property of a string, number,
  boolean or array, so only an object can hold one; reading from \<^verbatim>\<open>null\<close> or \<^verbatim>\<open>undefined\<close>
  throws.
\<close>

fun nullish :: "jsval \<Rightarrow> bool" where
  "nullish Undefined = True"
| "nullish Null = True"
| "nullish v = False"

fun getProp :: "jsval \<Rightarrow> string \<Rightarrow> exn + jsval" where
  "getProp Undefined k = Inl (typeErrorRead k Undefined)"
| "getProp Null k = Inl (typeErrorRead k Null)"
| "getProp (Obj ps) k = Inr (lookupProp ps k)"
| "getProp v k = Inr Undefined"

text \<open>
  \<^verbatim>\<open>v[i]\<close> for an index \<open>i\<close>: an element of an array, a character of a string, the property
  named by the decimal numeral in an object.
\<close>

fun getIndex :: "jsval \<Rightarrow> nat \<Rightarrow> exn + jsval" where
  "getIndex Undefined i = Inl (typeErrorRead (showNat i) Undefined)"
| "getIndex Null i = Inl (typeErrorRead (showNat i) Null)"
| "getIndex (Arr xs) i = Inr (if i < length xs then xs ! i else Undefined)"
| "getIndex (Str s) i = Inr (if i < length s then Str [s ! i] else Undefined)"
| "getIndex (Obj ps) i = Inr (lookupProp ps (showNat i))"
| "getIndex v i = Inr Undefined"

text \<open>
  \<^verbatim>\<open>ret.k = v\<close> and \<^verbatim>\<open>delete ret.k\<close> on the value a shaping function has built, which is an
  object or (for a nested array) an array; a named property of an array is not part of its
  JSON form and is never read back, so an array is left as it is.
\<close>

fun setProp :: "jsval \<Rightarrow> string \<Rightarrow> jsval \<Rightarrow> jsval" where
  "setProp (Obj ps) k v = Obj (AList.update k v ps)"
| "setProp w k v = w"

fun deleteProp :: "jsval \<Rightarrow> string \<Rightarrow> jsval" where
  "deleteProp (Obj ps) k = Obj (AList.delete k ps)"
| "deleteProp w k = w"

text \<open>
  The enumerable properties \<^verbatim>\<open>_.extend\<close> copies from a source (underscore's \<^verbatim>\<open>_.allKeys\<close>, then
  \<^verbatim>\<open>source[key]\<close>): those of an object, the indices of an array, none of anything else.
\<close>

fun entries :: "jsval \<Rightarrow> (string \<times> jsval) list" where
  "entries (Obj ps) = map (\<lambda>k. (k, lookupProp ps k)) (map fst ps)"
| "entries (Arr xs) = zip (map showNat [0..<length xs]) xs"
| "entries v = []"

definition extendObj :: "(string \<times> jsval) list \<Rightarrow> jsval \<Rightarrow> (string \<times> jsval) list" where
  "extendObj target source = fold (\<lambda>(k, v) t. AList.update k v t) (entries source) target"

subsection \<open>\<^verbatim>\<open>String.prototype.replace\<close> with the pattern \<^verbatim>\<open>/'[a-z_]*'/i\<close>\<close>

definition isWordChar :: "char \<Rightarrow> bool" where
  "isWordChar c = (let n = (of_char c :: nat) in
     (97 \<le> n \<and> n \<le> 122) \<or> (65 \<le> n \<and> n \<le> 90) \<or> n = 95)"

text \<open>The pattern at the head of a string: the matched text and what follows it.\<close>

fun matchHere :: "string \<Rightarrow> (string \<times> string) option" where
  "matchHere [] = None"
| "matchHere (c # r) =
     (if c = CHR 0x27 then
        (case dropWhile isWordChar r of
           [] \<Rightarrow> None
         | d # t \<Rightarrow> if d = CHR 0x27 then Some (c # takeWhile isWordChar r @ [d], t) else None)
      else None)"

text \<open>The leftmost match: the text before it, the match, the text after it.\<close>

fun searchQuoted :: "string \<Rightarrow> string \<Rightarrow> (string \<times> string \<times> string) option" where
  "searchQuoted pre [] = None"
| "searchQuoted pre (c # r) =
     (case matchHere (c # r) of
        Some (m, t) \<Rightarrow> Some (pre, m, t)
      | None \<Rightarrow> searchQuoted (pre @ [c]) r)"

text \<open>
  The replacement text is a template: \<^verbatim>\<open>$$\<close> stands for a dollar sign, \<^verbatim>\<open>$&\<close> for the match,
  \<^verbatim>\<open>$`\<close> for the text before the match and \<^verbatim>\<open>$'\<close> for the text after it (the pattern has no
  groups, so \<^verbatim>\<open>$1\<close> and the like stay as they are).
\<close>

fun getSubstitution :: "string \<Rightarrow> string \<Rightarrow> string \<Rightarrow> string \<Rightarrow> string" where
  "getSubstitution m pre suf [] = []"
| "getSubstitution m pre suf [c] = [c]"
| "getSubstitution m pre suf (c # d # r) =
     (if c = CHR ''$'' then
        (if d = CHR ''$'' then CHR ''$'' # getSubstitution m pre suf r
         else if d = CHR ''&'' then m @ getSubstitution m pre suf r
         else if d = CHR 0x60 then pre @ getSubstitution m pre suf r
         else if d = CHR 0x27 then suf @ getSubstitution m pre suf r
         else c # getSubstitution m pre suf (d # r))
      else c # getSubstitution m pre suf (d # r))"

definition replaceQuoted :: "string \<Rightarrow> string \<Rightarrow> string" where
  "replaceQuoted s repl =
     (case searchQuoted [] s of
        None \<Rightarrow> s
      | Some (pre, m, suf) \<Rightarrow> pre @ getSubstitution m pre suf repl @ suf)"

section \<open>The error table\<close>

definition INVALID_PAYLOAD :: jsval where
  "INVALID_PAYLOAD = Obj [(''code'', Num ''-32600''), (''message'', Str ''Payload invalid.'')]"

definition METHOD_DENIED :: jsval where
  "METHOD_DENIED = Obj [(''code'', Num ''-32601''), (''message'', Str ''Method '__method__' not allowed.'')]"

definition METHOD_TIMEOUT :: jsval where
  "METHOD_TIMEOUT =
     Obj [(''code'', Num ''-32603''), (''message'', Str ''Request timed out for method  '__method__'.'')]"

definition TX_DENIED :: jsval where
  "TX_DENIED = Obj [(''code'', Num ''-32603''), (''message'', Str ''Transaction denied'')]"

definition BATCH_TX_DENIED :: jsval where
  "BATCH_TX_DENIED =
     Obj [(''code'', Num ''-32603''),
          (''message'', Str ''Transactions denied, sendTransaction is not allowed in batch requests.'')]"

section \<open>Shaping error responses: \<^verbatim>\<open>_makeErrorResponsePayload\<close>\<close>

text \<open>\<^verbatim>\<open>[].concat(originalPayload)\<close>: the items of a batch, or the single payload.\<close>

fun concatPayload :: "jsval \<Rightarrow> jsval list" where
  "concatPayload (Arr xs) = xs"
| "concatPayload v = [v]"

text \<open>
  The tail of the callback, after the message has been dealt with: drop what is left over from
  the request and take the item's id.
\<close>

definition finishErrorEntry :: "(string \<times> jsval) list \<Rightarrow> jsval \<Rightarrow> exn + jsval" where
  "finishErrorEntry e item =
     (case getProp item ''id'' of
        Inl x \<Rightarrow> Inl x
      | Inr i \<Rightarrow> Inr (Obj (AList.update ''id'' i (AList.delete ''method'' (AList.delete ''params'' e)))))"

text \<open>
  The callback of the \<^verbatim>\<open>map\<close>, for one item. \<^verbatim>\<open>_.extend\<close> copies references, so when
  \<^verbatim>\<open>error.message\<close> is an array, \<^verbatim>\<open>e.message.pop()\<close> removes the last element of the array the
  error itself holds: the callback returns the error as the next item will find it, next to the
  entry it built.
\<close>

definition makeErrorEntry :: "jsval \<Rightarrow> jsval \<Rightarrow> exn + (jsval \<times> jsval)" where
  "makeErrorEntry error item =
     (let e = extendObj [(''jsonrpc'', Str ''2.0'')] error;
          msg = lookupProp e ''message''
      in if truthy msg then
           (let (msg', error') =
                  (case msg of
                     Arr xs \<Rightarrow> (if xs = [] then Undefined else last xs,
                                setProp error ''message'' (Arr (butlast xs)))
                   | _ \<Rightarrow> (msg, error))
            in case msg' of
                 Undefined \<Rightarrow> Inl (typeErrorRead ''replace'' Undefined)
               | Null \<Rightarrow> Inl (typeErrorRead ''replace'' Null)
               | _ \<Rightarrow>
                  (case getProp item ''method'' of
                     Inl x \<Rightarrow> Inl x
                   | Inr meth \<Rightarrow>
                      (case toString meth of
                         Inl x \<Rightarrow> Inl x
                       | Inr name \<Rightarrow>
                          (case msg' of
                             Str s \<Rightarrow>
                               (case finishErrorEntry
                                       (AList.delete ''message''
                                          (AList.update ''error''
                                             (Obj [(''message'',
                                                    Str (replaceQuoted s
                                                           ([CHR 0x27] @ name @ [CHR 0x27])))])
                                             (AList.update ''message'' msg' e)))
                                       item of
                                  Inl x \<Rightarrow> Inl x
                                | Inr r \<Rightarrow> Inr (r, error'))
                           | _ \<Rightarrow> Inl (TypeError ''e.message.replace is not a function'')))))
         else (case finishErrorEntry e item of
                 Inl x \<Rightarrow> Inl x
               | Inr r \<Rightarrow> Inr (r, error)))"

fun mapErrorEntries :: "jsval \<Rightarrow> jsval list \<Rightarrow> exn + jsval list" where
  "mapErrorEntries error [] = Inr []"
| "mapErrorEntries error (item # items) =
     (case makeErrorEntry error item of
        Inl x \<Rightarrow> Inl x
      | Inr (e, error') \<Rightarrow>
         (case mapErrorEntries error' items of
            Inl x \<Rightarrow> Inl x
          | Inr es \<Rightarrow> Inr (e # es)))"

definition makeErrorResponsePayload :: "jsval \<Rightarrow> jsval \<Rightarrow> exn + jsval" where
  "makeErrorResponsePayload originalPayload error =
     (case mapErrorEntries error (concatPayload originalPayload) of
        Inl x \<Rightarrow> Inl x
      | Inr es \<Rightarrow>
         Inr (if isArray originalPayload then Arr es
              else (case es of [] \<Rightarrow> Undefined | e # _ \<Rightarrow> e)))"

section \<open>Shaping responses: \<^verbatim>\<open>_makeResponsePayload\<close>\<close>

definition makeResponseEntry :: "jsval \<Rightarrow> jsval \<Rightarrow> exn + jsval" where
  "makeResponseEntry item finalResult =
     (case getProp finalResult ''error'' of
        Inl x \<Rightarrow> Inl x
      | Inr err \<Rightarrow>
         (case (if truthy err then makeErrorResponsePayload item err
                else (case getProp finalResult ''result'' of
                        Inl x \<Rightarrow> Inl x
                      | Inr r \<Rightarrow> Inr (Obj (extendObj (extendObj [] item) (Obj [(''result'', r)]))))) of
            Inl x \<Rightarrow> Inl x
          | Inr ret \<Rightarrow>
             (case getProp item ''id'' of
                Inl x \<Rightarrow> Inl x
              | Inr i \<Rightarrow>
                 Inr (setProp
                        (if truthy i then deleteProp (deleteProp ret ''params'') ''method'' else ret)
                        ''jsonrpc'' (Str ''2.0'')))))"

text \<open>The \<^verbatim>\<open>map\<close> with its index: \<^verbatim>\<open>finalValue[idx]\<close> is read only when there is an item.\<close>

fun mapResponseEntries :: "jsval \<Rightarrow> nat \<Rightarrow> jsval list \<Rightarrow> exn + jsval list" where
  "mapResponseEntries finalValue idx [] = Inr []"
| "mapResponseEntries finalValue idx (item # items) =
     (case getIndex finalValue idx of
        Inl x \<Rightarrow> Inl x
      | Inr finalResult \<Rightarrow>
         (case makeResponseEntry item finalResult of
            Inl x \<Rightarrow> Inl x
          | Inr ret \<Rightarrow>
             (case mapResponseEntries finalValue (Suc idx) items of
                Inl x \<Rightarrow> Inl x
              | Inr rs \<Rightarrow> Inr (ret # rs))))"

definition makeResponsePayload :: "jsval \<Rightarrow> jsval \<Rightarrow> exn + jsval" where
  "makeResponsePayload originalPayload value =
     (let finalValue = (if isArray originalPayload then value else Arr [value])
      in case mapResponseEntries finalValue 0 (concatPayload originalPayload) of
           Inl x \<Rightarrow> Inl x
         | Inr allResults \<Rightarrow>
            Inr (if isArray originalPayload then Arr allResults
                 else (case allResults of [] \<Rightarrow> Undefined | r # _ \<Rightarrow> r)))"

section \<open>Connections, processors and the world outside this module\<close>

text \<open>
  An entry of \<^verbatim>\<open>this._connections\<close>. The owner is the sender of the IPC event, known by its id;
  the socket is a reference to an object of the socket manager, whose \<^verbatim>\<open>isConnected\<close> flag the
  socket itself changes.
\<close>

record connection =
  conn_id :: nat
  conn_owner :: nat
  conn_socket :: nat

text \<open>How a promise has ended, if it has.\<close>

datatype 'a promise = Fulfilled 'a | Rejected exn | Pending

text \<open>
  A method processor (\<^verbatim>\<open>methods/*.js\<close>, not part of this module). Its \<^verbatim>\<open>sanitizePayload\<close>
  changes the payload it is given in place and returns nothing: here it returns the payload as
  it has left it. Its \<^verbatim>\<open>exec\<close> returns a promise; an \<^verbatim>\<open>exec\<close> that throws, or that is not
  there to be called, is one whose promise is rejected.
\<close>

record processor =
  sanitizePayload :: "connection \<Rightarrow> jsval \<Rightarrow> jsval"
  exec :: "connection \<Rightarrow> jsval \<Rightarrow> jsval promise"

text \<open>
  What \<^verbatim>\<open>_sendRequest\<close> uses and does not define: the runtime's \<^verbatim>\<open>JSON.parse\<close> (\<open>Inl\<close> is
  the message of the \<^verbatim>\<open>SyntaxError\<close> it throws), the processor table \<^verbatim>\<open>this._processors\<close> by
  method name with its \<^verbatim>\<open>base\<close> entry, and the current \<^verbatim>\<open>isConnected\<close> flag of every socket.
\<close>

record environment =
  jsonParse :: "string \<Rightarrow> string + jsval"
  base :: processor
  processors :: "string \<Rightarrow> processor option"
  isConnected :: "nat \<Rightarrow> bool"

text \<open>
  What the backend does to the outside, in the order it does it: a call of a processor's
  \<^verbatim>\<open>exec\<close> (of the processor registered under a name, or of \<^verbatim>\<open>base\<close>); a value handed back to
  a sender, JSON-encoded, as \<^verbatim>\<open>event.returnValue\<close> or as an \<^verbatim>\<open>ipcProvider-data\<close> message; an
  \<^verbatim>\<open>ipcProvider-setWritable\<close> message to an owner; a call of \<^verbatim>\<open>connect\<close> on a socket (for an
  owner, on the socket), of \<^verbatim>\<open>disconnect\<close> or of \<^verbatim>\<open>destroy\<close>; a call of \<^verbatim>\<open>log.error\<close>.
\<close>

datatype event =
    Exec "string option" connection jsval
  | SetReturnValue nat jsval
  | SendData nat jsval
  | SetWritable nat bool
  | SocketConnect nat nat
  | SocketDisconnect nat
  | SocketDestroy nat
  | LogError exn

section \<open>Sanitizing a request: \<^verbatim>\<open>_sanitizeRequestPayload\<close>\<close>

text \<open>The callback of \<^verbatim>\<open>_.each\<close> for one entry of a batch.\<close>

definition sanitizeBatchEntry :: "environment \<Rightarrow> connection \<Rightarrow> jsval \<Rightarrow> exn + jsval" where
  "sanitizeBatchEntry env conn p =
     (case getProp p ''method'' of
        Inl x \<Rightarrow> Inl x
      | Inr m \<Rightarrow>
         if m = Str ''eth_sendTransaction'' then Inr (setProp p ''error'' BATCH_TX_DENIED)
         else Inr (sanitizePayload (base env) conn p))"

fun eachBatchEntry :: "environment \<Rightarrow> connection \<Rightarrow> jsval list \<Rightarrow> exn + jsval list" where
  "eachBatchEntry env conn [] = Inr []"
| "eachBatchEntry env conn (p # ps) =
     (case sanitizeBatchEntry env conn p of
        Inl x \<Rightarrow> Inl x
      | Inr p' \<Rightarrow>
         (case eachBatchEntry env conn ps of
            Inl x \<Rightarrow> Inl x
          | Inr ps' \<Rightarrow> Inr (p' # ps')))"

fun sanitizeRequestPayload :: "environment \<Rightarrow> connection \<Rightarrow> jsval \<Rightarrow> exn + jsval" where
  "sanitizeRequestPayload env conn (Arr ps) =
     (case eachBatchEntry env conn ps of
        Inl x \<Rightarrow> Inl x
      | Inr ps' \<Rightarrow> Inr (Arr ps'))"
| "sanitizeRequestPayload env conn payload = Inr (sanitizePayload (base env) conn payload)"

section \<open>Sending a request: \<^verbatim>\<open>_sendRequest\<close>\<close>

text \<open>
  The second step of the chain, \<^verbatim>\<open>.then((conn) => ...)\<close>: the connection \<^verbatim>\<open>_getOrCreateConnection\<close>
  has resolved with (\<^verbatim>\<open>this._connections[ownerId]\<close>, which may be missing), and the raw request.
  It yields the calls made to processors and the promise the step returns.
\<close>

definition dispatchRequest ::
  "environment \<Rightarrow> connection option \<Rightarrow> string \<Rightarrow> event list \<times> jsval promise" where
  "dispatchRequest env conn originalPayloadStr =
     (case conn of
        None \<Rightarrow> ([], Rejected (typeErrorRead ''socket'' Undefined))
      | Some c \<Rightarrow>
         if \<not> isConnected env (conn_socket c) then ([], Rejected (Thrown METHOD_TIMEOUT))
         else
           (case jsonParse env originalPayloadStr of
              Inl m \<Rightarrow> ([], Rejected (SyntaxError m))
            | Inr parsed \<Rightarrow>
               (case sanitizeRequestPayload env c parsed of
                  Inl x \<Rightarrow> ([], Rejected x)
                | Inr finalPayload \<Rightarrow>
                   (case (if isArray finalPayload then Inr Undefined
                          else getProp finalPayload ''error'') of
                      Inl x \<Rightarrow> ([], Rejected x)
                    | Inr err \<Rightarrow>
                       if truthy err then ([], Rejected (Thrown err))
                       else
                         (case getProp finalPayload ''method'' of
                            Inl x \<Rightarrow> ([], Rejected x)
                          | Inr m \<Rightarrow>
                             (case toString m of
                                Inl x \<Rightarrow> ([], Rejected x)
                              | Inr name \<Rightarrow>
                                 (case processors env name of
                                    Some p \<Rightarrow>
                                      ([Exec (Some name) c finalPayload], exec p c finalPayload)
                                  | None \<Rightarrow>
                                      ([Exec None c finalPayload],
                                       exec (base env) c finalPayload))))))))"

text \<open>
  The \<^verbatim>\<open>.catch\<close> handler: \<^verbatim>\<open>payload\<close> is the parsed request, or still the raw string when
  parsing failed. Reading \<^verbatim>\<open>err.message\<close> of \<^verbatim>\<open>null\<close> or \<^verbatim>\<open>undefined\<close> throws, and so may the
  shaping: then the handler itself fails.
\<close>

fun errMessage :: "exn \<Rightarrow> exn + jsval" where
  "errMessage (Thrown (Str s)) = Inr (Str s)"
| "errMessage (Thrown v) = getProp v ''message''"
| "errMessage (TypeError m) = Inr (Str m)"
| "errMessage (SyntaxError m) = Inr (Str m)"

fun errCode :: "exn \<Rightarrow> exn + jsval" where
  "errCode (Thrown v) = getProp v ''code''"
| "errCode (TypeError m) = Inr Undefined"
| "errCode (SyntaxError m) = Inr Undefined"

definition catchHandler :: "jsval \<Rightarrow> exn \<Rightarrow> exn + jsval" where
  "catchHandler payload err =
     (case errMessage err of
        Inl x \<Rightarrow> Inl x
      | Inr m \<Rightarrow>
         (case errCode err of
            Inl x \<Rightarrow> Inl x
          | Inr c \<Rightarrow>
             makeErrorResponsePayload (if truthy payload then payload else Obj [])
               (Obj [(''message'', m), (''code'', c)])))"

text \<open>The last step: hand the encoded value back, as the return value of a synchronous call or
  as an \<^verbatim>\<open>ipcProvider-data\<close> message to the sender.\<close>

definition deliver :: "bool \<Rightarrow> nat \<Rightarrow> jsval \<Rightarrow> event list" where
  "deliver isSync ownerId returnValue =
     (if isSync then [SetReturnValue ownerId returnValue] else [SendData ownerId returnValue])"

definition recover :: "bool \<Rightarrow> nat \<Rightarrow> jsval \<Rightarrow> exn \<Rightarrow> event list \<times> unit promise" where
  "recover isSync ownerId payload err =
     (case catchHandler payload err of
        Inl x \<Rightarrow> ([LogError err], Rejected x)
      | Inr v \<Rightarrow> (LogError err # deliver isSync ownerId v, Fulfilled ()))"

text \<open>
  The whole chain. \<open>connecting\<close> is how the promise of \<^verbatim>\<open>_getOrCreateConnection\<close> ends for this
  sender. The result is what the backend did and how the promise \<^verbatim>\<open>_sendRequest\<close> returns ends:
  \<open>Rejected\<close> means a failure nothing handles.
\<close>

definition sendRequest ::
  "environment \<Rightarrow> bool \<Rightarrow> nat \<Rightarrow> connection option promise \<Rightarrow> string \<Rightarrow> event list \<times> unit promise" where
  "sendRequest env isSync ownerId connecting originalPayloadStr =
     (case jsonParse env originalPayloadStr of
        Inl m \<Rightarrow> recover isSync ownerId (Str originalPayloadStr) (SyntaxError m)
      | Inr payload \<Rightarrow>
         (case connecting of
            Pending \<Rightarrow> ([], Pending)
          | Rejected x \<Rightarrow> recover isSync ownerId payload x
          | Fulfilled conn \<Rightarrow>
             (case dispatchRequest env conn originalPayloadStr of
                (calls, Pending) \<Rightarrow> (calls, Pending)
              | (calls, Rejected x) \<Rightarrow>
                  (case recover isSync ownerId payload x of (evs, r) \<Rightarrow> (calls @ evs, r))
              | (calls, Fulfilled result) \<Rightarrow>
                  (case makeResponsePayload payload result of
                     Inl x \<Rightarrow>
                       (case recover isSync ownerId payload x of (evs, r) \<Rightarrow> (calls @ evs, r))
                   | Inr v \<Rightarrow> (calls @ deliver isSync ownerId v, Fulfilled ())))))"

section \<open>Well-formed requests, errors and replies\<close>

text \<open>
  The inputs the shaping functions are meant for. A request object is an object without an
  \<^verbatim>\<open>error\<close> field whose method has a string form. An error object is an object whose message
  is a non-empty string and that has no \<^verbatim>\<open>jsonrpc\<close> and no \<^verbatim>\<open>result\<close> field. A reply of the
  node is an object with such an error, or without a truthy error and with a result. A shaped
  entry has the right form for an item when it is an object whose \<^verbatim>\<open>jsonrpc\<close> is \<^verbatim>\<open>"2.0"\<close>,
  whose id is the item's, and that carries exactly one of \<^verbatim>\<open>result\<close> and \<^verbatim>\<open>error\<close> (a
  property whose value is \<^verbatim>\<open>undefined\<close> is not written by \<^verbatim>\<open>JSON.stringify\<close>, so it does not
  count).
\<close>

definition printable :: "jsval \<Rightarrow> bool" where
  "printable v = (case toString v of Inl x \<Rightarrow> False | Inr s \<Rightarrow> True)"

definition isRequest :: "jsval \<Rightarrow> bool" where
  "isRequest v =
     (case v of
        Obj ps \<Rightarrow> lookupProp ps ''error'' = Undefined \<and> printable (lookupProp ps ''method'')
      | _ \<Rightarrow> False)"

definition isErrorObject :: "jsval \<Rightarrow> bool" where
  "isErrorObject v =
     (case v of
        Obj es \<Rightarrow>
          (case lookupProp es ''message'' of Str s \<Rightarrow> s \<noteq> [] | _ \<Rightarrow> False) \<and>
          ''jsonrpc'' \<notin> set (map fst es) \<and>
          lookupProp es ''result'' = Undefined
      | _ \<Rightarrow> False)"

definition isReply :: "jsval \<Rightarrow> bool" where
  "isReply v =
     (case v of
        Obj rs \<Rightarrow>
          (if truthy (lookupProp rs ''error'') then isErrorObject (lookupProp rs ''error'')
           else lookupProp rs ''result'' \<noteq> Undefined)
      | _ \<Rightarrow> False)"

definition responseShape :: "jsval \<Rightarrow> jsval \<Rightarrow> bool" where
  "responseShape item r =
     (case r of
        Obj ps \<Rightarrow>
          lookupProp ps ''jsonrpc'' = Str ''2.0'' \<and>
          Inr (lookupProp ps ''id'') = getProp item ''id'' \<and>
          (lookupProp ps ''result'' \<noteq> Undefined) \<noteq> (lookupProp ps ''error'' \<noteq> Undefined)
      | _ \<Rightarrow> False)"

text \<open>The value of \<^verbatim>\<open>v.k\<close> where reading it does not throw.\<close>

definition field :: "jsval \<Rightarrow> string \<Rightarrow> jsval" where
  "field v k = (case getProp v k of Inl x \<Rightarrow> Undefined | Inr x \<Rightarrow> x)"

text \<open>
  What an entry built for an item from an error with code \<open>c\<close> and a non-empty string message
  looks like: \<^verbatim>\<open>jsonrpc\<close>, the code, the item's id and an \<^verbatim>\<open>error\<close> holding a message.
\<close>

definition errorEntry :: "jsval \<Rightarrow> jsval \<Rightarrow> jsval \<Rightarrow> bool" where
  "errorEntry c item e \<longleftrightarrow>
     field e ''jsonrpc'' = Str ''2.0'' \<and> field e ''code'' = c \<and>
     field e ''id'' = field item ''id'' \<and>
     (\<exists>t. field e ''error'' = Obj [(''message'', Str t)])"

section \<open>An example environment\<close>

text \<open>
  Concrete surroundings to run the backend in: six request texts, \<^verbatim>\<open>JSON.parse\<close> on them and
  on the malformed texts \<^verbatim>\<open>hello\<close> and \<^verbatim>\<open>hi\<close> (with the message of the V8 of the time for the
  first and of a later V8, which quotes the token, for the second), a base processor that
  denies \<^verbatim>\<open>admin_stop\<close> with \<^verbatim>\<open>ERRORS.METHOD_DENIED\<close>, \<^verbatim>\<open>miner_stop\<close> with an error whose
  message is empty and \<^verbatim>\<open>debug_stop\<close> with an error whose message is a number, and answers
  every request it executes with \<^verbatim>\<open>0x1\<close>, no other processor, and sockets 1 and 2
  connected.
\<close>

definition rawAdminRequest :: string where
  \<open>rawAdminRequest = ''{"id":1,"method":"admin_stop","params":[]}''\<close>

definition rawBatchRequest :: string where
  \<open>rawBatchRequest =
     ''[{"id":1,"method":"eth_sendTransaction","params":[]},{"id":2,"method":"eth_accounts"}]''\<close>

definition rawBlockNumberRequest :: string where
  \<open>rawBlockNumberRequest = ''{"id":7,"method":"eth_blockNumber"}''\<close>

definition rawMinerRequest :: string where
  \<open>rawMinerRequest = ''{"id":4,"method":"miner_stop"}''\<close>

definition rawDebugRequest :: string where
  \<open>rawDebugRequest = ''{"id":5,"method":"debug_stop"}''\<close>

definition rawNullBatchRequest :: string where
  \<open>rawNullBatchRequest = ''[null,{"id":1,"method":"eth_sendTransaction","params":[]}]''\<close>

definition quotedTokenMessage :: string where
  \<open>quotedTokenMessage = ''Unexpected token 'h', "hi" is not valid JSON''\<close>

definition quotedTokenRewritten :: string where
  \<open>quotedTokenRewritten = ''Unexpected token 'undefined', "hi" is not valid JSON''\<close>

definition silentError :: jsval where
  "silentError = Obj [(''code'', Num ''-32601''), (''message'', Str [])]"

definition numericError :: jsval where
  "numericError = Obj [(''code'', Num ''1''), (''message'', Num ''5'')]"

definition exampleParse :: "string \<Rightarrow> string + jsval" where
  "exampleParse s =
     (if s = rawAdminRequest then
        Inr (Obj [(''id'', Num ''1''), (''method'', Str ''admin_stop''), (''params'', Arr [])])
      else if s = rawBatchRequest then
        Inr (Arr [Obj [(''id'', Num ''1''), (''method'', Str ''eth_sendTransaction''), (''params'', Arr [])],
                  Obj [(''id'', Num ''2''), (''method'', Str ''eth_accounts'')]])
      else if s = rawBlockNumberRequest then
        Inr (Obj [(''id'', Num ''7''), (''method'', Str ''eth_blockNumber'')])
      else if s = rawMinerRequest then
        Inr (Obj [(''id'', Num ''4''), (''method'', Str ''miner_stop'')])
      else if s = rawDebugRequest then
        Inr (Obj [(''id'', Num ''5''), (''method'', Str ''debug_stop'')])
      else if s = rawNullBatchRequest then
        Inr (Arr [Null,
                  Obj [(''id'', Num ''1''), (''method'', Str ''eth_sendTransaction''),
                       (''params'', Arr [])]])
      else if s = ''hello'' then Inl ''Unexpected token h in JSON at position 0''
      else if s = ''hi'' then Inl quotedTokenMessage
      else Inl ''Unexpected end of JSON input'')"

definition exampleBase :: processor where
  "exampleBase =
     \<lparr>sanitizePayload =
        (\<lambda>conn p. if getProp p ''method'' = Inr (Str ''admin_stop'')
                   then setProp p ''error'' METHOD_DENIED
                   else if getProp p ''method'' = Inr (Str ''miner_stop'')
                   then setProp p ''error'' silentError
                   else if getProp p ''method'' = Inr (Str ''debug_stop'')
                   then setProp p ''error'' numericError else p),
      exec = (\<lambda>conn p. Fulfilled (Obj [(''jsonrpc'', Str ''2.0''), (''id'', field p ''id''),
                                         (''result'', Str ''0x1'')]))\<rparr>"

definition exampleEnv :: environment where
  "exampleEnv =
     \<lparr>jsonParse = exampleParse,
      base = exampleBase,
      processors = (\<lambda>name. None),
      isConnected = (\<lambda>s. s = 1 \<or> s = 2)\<rparr>"

definition exampleConn :: "nat \<Rightarrow> connection" where
  "exampleConn n = \<lparr>conn_id = n, conn_owner = n, conn_socket = n\<rparr>"

section \<open>The connection table\<close>

text \<open>
  The two tables of the backend, keyed by the owner's id: \<^verbatim>\<open>this._connections\<close> and
  \<^verbatim>\<open>this._connectionPromise\<close>, whose entries are promises, known here by a handle.
\<close>

record backend =
  connections :: "(nat \<times> connection) list"
  connectionPromise :: "(nat \<times> nat) list"

text \<open>
  The values of an object whose keys are numbers, in the order \<^verbatim>\<open>_.map\<close> visits them: by
  ascending key.
\<close>

definition tableItems :: "(nat \<times> 'a) list \<Rightarrow> 'a list" where
  "tableItems tbl = map snd (sort_key fst (AList.clearjunk tbl))"

subsection \<open>\<^verbatim>\<open>_destroyConnection\<close>\<close>


subsection \<open>\<^verbatim>\<open>_onNodeStateChanged\<close>\<close>

text \<open>
  Modelled from the spec: the states of the node (\<^verbatim>\<open>ethereumNode.STATES\<close>, defined outside
  this module), of which the backend tests \<^verbatim>\<open>STOPPING\<close> and \<^verbatim>\<open>CONNECTED\<close>.
\<close>

datatype node_state = NodeStarting | NodeConnected | NodeStopping | NodeStopped

fun isLogError :: "event \<Rightarrow> bool" where
  "isLogError (LogError x) = True"
| "isLogError e = False"

fun rejection :: "unit promise \<Rightarrow> exn list" where
  "rejection (Rejected x) = [x]"
| "rejection p = []"

text \<open>
  \<open>connected\<close> is the \<^verbatim>\<open>isConnected\<close> flag of every socket when the state changes, and
  \<open>disconnecting\<close> is how the promise of each socket's \<^verbatim>\<open>disconnect()\<close> ends. \<^verbatim>\<open>_.map\<close> calls
  \<^verbatim>\<open>disconnect\<close> on every connected socket first; an owner is told once its own socket has
  disconnected; \<^verbatim>\<open>Q.all\<close> is rejected by the first failure, which the \<^verbatim>\<open>.catch\<close> handler logs.
  The messages and the log entry come in the order in which the promises end: the list has
  them in the order of the table.
\<close>

definition onNodeStateChanged ::
  "(nat \<Rightarrow> bool) \<Rightarrow> (nat \<Rightarrow> unit promise) \<Rightarrow> backend \<Rightarrow> node_state \<Rightarrow> event list" where
  "onNodeStateChanged connected disconnecting b state =
     (case state of
        NodeStopping \<Rightarrow>
          (let live = filter (\<lambda>item. connected (conn_socket item)) (tableItems (connections b))
           in map (\<lambda>item. SocketDisconnect (conn_socket item)) live @
              map (\<lambda>item. SetWritable (conn_owner item) False)
                (filter (\<lambda>item. disconnecting (conn_socket item) = Fulfilled ()) live) @
              (case concat (map (\<lambda>item. rejection (disconnecting (conn_socket item))) live) of
                 [] \<Rightarrow> []
               | x # xs \<Rightarrow> [LogError x]))
      | _ \<Rightarrow> [])"

section \<open>Creating connections: \<^verbatim>\<open>_getOrCreateConnection\<close> step by step\<close>

text \<open>
  A call of \<^verbatim>\<open>_getOrCreateConnection\<close> is a chain of four steps, and other handlers run between
  them. The connect operation a call starts in its third step, and stores in
  \<^verbatim>\<open>this._connectionPromise\<close>, is a chain of its own: wait for the node, call
  \<^verbatim>\<open>socket.connect\<close>, and when that has ended run the \<^verbatim>\<open>finally\<close> handler, which deletes the
  table entry.
\<close>

datatype phase =
    AwaitingNode
  | ReadyToConnect
  | Connecting
  | Landed "exn option"
  | Settled "exn option"

record pending =
  p_owner :: nat
  p_socket :: nat
  p_phase :: phase

text \<open>Where a call stands: before its second, third or fourth step, waiting for a connect
  operation, or ended.\<close>

datatype pc =
    AtRegister
  | AtConnect
  | Awaiting nat
  | AtNotify
  | Resolved "connection option"
  | Failed exn

record invocation =
  i_owner :: nat
  i_socket :: nat
  i_pc :: pc

record world = backend +
  pendings :: "pending list"
  invocations :: "invocation list"
  connectedSockets :: "nat list"
  node :: node_state
  trace :: "event list"

text \<open>
  What can happen next: a call arrives from an owner (with the socket \<^verbatim>\<open>Sockets.get\<close> would
  hand out for it); a call or a connect operation runs its next step; the node changes state;
  the \<^verbatim>\<open>connect\<close> of a socket ends, well or with an error; a socket changes its
  \<^verbatim>\<open>isConnected\<close> flag; another handler (\<^verbatim>\<open>_destroyConnection\<close>, the socket's \<^verbatim>\<open>error\<close>,
  \<^verbatim>\<open>timeout\<close> and \<^verbatim>\<open>end\<close> handlers) deletes an owner's connection.
\<close>

datatype action =
    Create nat nat
  | Advance nat
  | Proceed nat
  | NodeState node_state
  | ConnectEnds nat "exn option"
  | SocketFlag nat bool
  | Forget nat

definition setPc :: "nat \<Rightarrow> pc \<Rightarrow> world \<Rightarrow> world" where
  "setPc i c w = w\<lparr>invocations := (invocations w)[i := (invocations w ! i)\<lparr>i_pc := c\<rparr>]\<rparr>"

definition setPhase :: "nat \<Rightarrow> phase \<Rightarrow> world \<Rightarrow> world" where
  "setPhase p ph w = w\<lparr>pendings := (pendings w)[p := (pendings w ! p)\<lparr>p_phase := ph\<rparr>]\<rparr>"

text \<open>The next step of call \<open>i\<close>, which is \<open>call\<close>.\<close>

definition advance :: "nat \<Rightarrow> invocation \<Rightarrow> world \<Rightarrow> world" where
  "advance i call w =
     (case i_pc call of
        AtRegister \<Rightarrow>
          setPc i AtConnect
            (case map_of (connections w) (i_owner call) of
               None \<Rightarrow>
                 w\<lparr>connections :=
                     AList.update (i_owner call)
                       \<lparr>conn_id = i_owner call, conn_owner = i_owner call, conn_socket = i_socket call\<rparr>
                       (connections w)\<rparr>
             | Some c \<Rightarrow> w)
      | AtConnect \<Rightarrow>
          if i_socket call \<in> set (connectedSockets w) then setPc i AtNotify w
          else
            (case map_of (connectionPromise w) (i_owner call) of
               Some p \<Rightarrow> setPc i (Awaiting p) w
             | None \<Rightarrow>
                 setPc i (Awaiting (length (pendings w)))
                   (w\<lparr>connectionPromise :=
                        AList.update (i_owner call) (length (pendings w)) (connectionPromise w),
                      pendings :=
                        pendings w @
                        [\<lparr>p_owner = i_owner call, p_socket = i_socket call,
                          p_phase = (if node w = NodeConnected then ReadyToConnect
                                     else AwaitingNode)\<rparr>]\<rparr>))
      | Awaiting p \<Rightarrow>
          if p < length (pendings w) then
            (case p_phase (pendings w ! p) of
               Settled None \<Rightarrow> setPc i AtNotify w
             | Settled (Some x) \<Rightarrow> setPc i (Failed x) w
             | _ \<Rightarrow> w)
          else w
      | AtNotify \<Rightarrow>
          setPc i (Resolved (map_of (connections w) (i_owner call)))
            (w\<lparr>trace := trace w @ [SetWritable (i_owner call) True]\<rparr>)
      | Resolved c \<Rightarrow> w
      | Failed x \<Rightarrow> w)"

text \<open>The next step of connect operation \<open>p\<close>, which is \<open>pend\<close>.\<close>

definition proceed :: "nat \<Rightarrow> pending \<Rightarrow> world \<Rightarrow> world" where
  "proceed p pend w =
     (case p_phase pend of
        ReadyToConnect \<Rightarrow>
          setPhase p Connecting
            (w\<lparr>trace := trace w @ [SocketConnect (p_owner pend) (p_socket pend)]\<rparr>)
      | Landed outcome \<Rightarrow>
          setPhase p (Settled outcome)
            (w\<lparr>connectionPromise := AList.delete (p_owner pend) (connectionPromise w)\<rparr>)
      | _ \<Rightarrow> w)"

fun step :: "action \<Rightarrow> world \<Rightarrow> world" where
  "step (Create ownerId fresh) w =
     w\<lparr>invocations :=
         invocations w @
         [\<lparr>i_owner = ownerId,
           i_socket = (case map_of (connections w) ownerId of
                         Some c \<Rightarrow> conn_socket c
                       | None \<Rightarrow> fresh),
           i_pc = AtRegister\<rparr>]\<rparr>"
| "step (Advance i) w = (if i < length (invocations w) then advance i (invocations w ! i) w else w)"
| "step (Proceed p) w = (if p < length (pendings w) then proceed p (pendings w ! p) w else w)"
| "step (NodeState s) w =
     w\<lparr>node := s,
       pendings :=
         (if s = NodeConnected
          then map (\<lambda>q. if p_phase q = AwaitingNode then q\<lparr>p_phase := ReadyToConnect\<rparr> else q)
                 (pendings w)
          else pendings w)\<rparr>"
| "step (ConnectEnds p outcome) w =
     (if p < length (pendings w) \<and> p_phase (pendings w ! p) = Connecting
      then setPhase p (Landed outcome) w else w)"
| "step (SocketFlag s up) w =
     w\<lparr>connectedSockets :=
         (if up then s # connectedSockets w else removeAll s (connectedSockets w))\<rparr>"
| "step (Forget ownerId) w = w\<lparr>connections := AList.delete ownerId (connections w)\<rparr>"

fun run :: "action list \<Rightarrow> world \<Rightarrow> world" where
  "run [] w = w"
| "run (a # as) w = run as (step a w)"


text \<open>How often \<^verbatim>\<open>socket.connect\<close> has been called for an owner, and which connect operations
  have got as far as calling it, or have ended.\<close>

fun isConnectFor :: "nat \<Rightarrow> event \<Rightarrow> bool" where
  "isConnectFor ownerId (SocketConnect ownr s) = (ownr = ownerId)"
| "isConnectFor ownerId e = False"

definition connectsFor :: "nat \<Rightarrow> event list \<Rightarrow> nat" where
  "connectsFor ownerId tr = length (filter (isConnectFor ownerId) tr)"



section \<open>An example backend\<close>

text \<open>
  Three owners with a connection each (in the example environment the sockets of the first
  two are connected); the first socket fails to disconnect.
\<close>

definition exampleBackend :: backend where
  "exampleBackend =
     \<lparr>connections = [(1, exampleConn 1), (2, exampleConn 2), (3, exampleConn 3)],
      connectionPromise = []\<rparr>"

definition exampleDisconnecting :: "nat \<Rightarrow> unit promise" where
  "exampleDisconnecting s = (if s = 1 then Rejected (Thrown (Str ''EPIPE'')) else Fulfilled ())"




section \<open>An example schedule\<close>





section \<open>Properties of objects\<close>

lemma map_of_fold_update:
  "map_of (fold (\<lambda>(k, v) t. AList.update k v t) xs t) k =
     (case map_of (rev xs) k of None \<Rightarrow> map_of t k | Some v \<Rightarrow> Some v)"
proof (induction xs arbitrary: t)
  case Nil
  show ?case by simp
next
  case (Cons x xs)
  obtain a b where x: "x = (a, b)" by (cases x)
  show ?case
    by (simp add: Cons.IH x update_conv' map_add_def split: option.splits)
qed

lemma map_of_rev_entries_Obj:
  "map_of (rev (entries (Obj ps))) k = map_of ps k"
proof -
  have *: "map_of (rev (map (\<lambda>k. (k, lookupProp ps k)) ks)) k =
          (if k \<in> set ks then Some (lookupProp ps k) else None)" for ks
    by (induction ks) (auto simp: map_add_def split: option.splits)
  have E: "map_of (rev (entries (Obj ps))) k =
          (if k \<in> set (map fst ps) then Some (lookupProp ps k) else None)"
    unfolding entries.simps by (rule *)
  show ?thesis
  proof (cases "map_of ps k")
    case None
    then have "k \<notin> set (map fst ps)" by (simp add: map_of_eq_None_iff)
    with None show ?thesis unfolding E by simp
  next
    case (Some v)
    then have "k \<in> set (map fst ps)" by (metis map_of_eq_None_iff option.distinct(1) set_map)
    with Some show ?thesis unfolding E by (simp add: lookupProp_def)
  qed
qed

lemma map_of_extend_Obj:
  "map_of (extendObj t (Obj ps)) k = (case map_of ps k of None \<Rightarrow> map_of t k | Some v \<Rightarrow> Some v)"
  unfolding extendObj_def map_of_fold_update map_of_rev_entries_Obj ..

lemma lookupProp_extend_Obj:
  "lookupProp (extendObj t (Obj ps)) k = (case map_of ps k of None \<Rightarrow> lookupProp t k | Some v \<Rightarrow> v)"
  by (simp add: lookupProp_def map_of_extend_Obj split: option.splits)

lemma map_of_absent:
  "list_all (\<lambda>k. k \<in> set ks) (map fst ps) \<Longrightarrow> k \<notin> set ks \<Longrightarrow> map_of ps k = None"
  by (auto simp: map_of_eq_None_iff list_all_iff)

lemma lookupProp_update: "lookupProp (AList.update k v ps) k' = (if k' = k then v else lookupProp ps k')"
  by (simp add: lookupProp_def update_conv')

lemma lookupProp_delete: "lookupProp (AList.delete k ps) k' = (if k' = k then Undefined else lookupProp ps k')"
  by (simp add: lookupProp_def delete_conv')

lemma lookupProp_Nil: "lookupProp [] k = Undefined"
  by (simp add: lookupProp_def)

lemma lookupProp_Cons: "lookupProp ((k, v) # ps) k' = (if k' = k then v else lookupProp ps k')"
  by (simp add: lookupProp_def)

lemma lookupProp_fold: "(case map_of ps k of None \<Rightarrow> Undefined | Some v \<Rightarrow> v) = lookupProp ps k"
  by (simp add: lookupProp_def)

lemma printable_toString: "printable v \<Longrightarrow> \<exists>name. toString v = Inr name"
  by (cases "toString v") (simp_all add: printable_def)

lemma makeErrorEntry_string:
  assumes "lookupProp es ''message'' = Str s" and "s \<noteq> []"
    and "toString (lookupProp ps ''method'') = Inr name"
  shows "makeErrorEntry (Obj es) (Obj ps) =
           Inr (Obj (AList.update ''id'' (lookupProp ps ''id'')
                  (AList.delete ''method'' (AList.delete ''params''
                    (AList.delete ''message''
                      (AList.update ''error''
                         (Obj [(''message'', Str (replaceQuoted s ([CHR 0x27] @ name @ [CHR 0x27])))])
                         (AList.update ''message'' (Str s)
                            (extendObj [(''jsonrpc'', Str ''2.0'')] (Obj es)))))))),
                Obj es)"
proof -
  from assms(1) have "map_of es ''message'' = Some (Str s)"
    by (auto simp: lookupProp_def split: option.splits)
  then have m: "lookupProp (extendObj [(''jsonrpc'', Str ''2.0'')] (Obj es)) ''message'' = Str s"
    by (simp add: lookupProp_extend_Obj)
  show ?thesis
    unfolding makeErrorEntry_def Let_def m
    using assms(2,3) by (simp add: finishErrorEntry_def)
qed

lemma makeErrorEntry_shape:
  assumes "isErrorObject error" and "isRequest item"
  shows "\<exists>r. makeErrorEntry error item = Inr (r, error) \<and> responseShape item r"
proof -
  from assms(1) obtain es s where error: "error = Obj es"
    and msg: "lookupProp es ''message'' = Str s" "s \<noteq> []"
    and nj: "''jsonrpc'' \<notin> set (map fst es)"
    and nr: "lookupProp es ''result'' = Undefined"
    by (auto simp: isErrorObject_def split: jsval.splits)
  from assms(2) obtain ps where item: "item = Obj ps"
    and "printable (lookupProp ps ''method'')"
    by (auto simp: isRequest_def split: jsval.splits)
  then obtain name where name: "toString (lookupProp ps ''method'') = Inr name"
    using printable_toString by blast
  from nj have j: "map_of es ''jsonrpc'' = None"
    by (simp add: map_of_eq_None_iff)
  have r: "lookupProp (extendObj [(''jsonrpc'', Str ''2.0'')] (Obj es)) ''result'' = Undefined"
    using nr by (simp add: lookupProp_extend_Obj) (simp add: lookupProp_def split: option.splits)
  have jr: "lookupProp (extendObj [(''jsonrpc'', Str ''2.0'')] (Obj es)) ''jsonrpc'' = Str ''2.0''"
    using j by (simp add: lookupProp_extend_Obj lookupProp_Cons)
  show ?thesis
    unfolding error item makeErrorEntry_string[OF msg name]
    by (simp add: responseShape_def lookupProp_update lookupProp_delete r jr)
qed

lemma mapErrorEntries_uniform:
  assumes "\<forall>item\<in>set items. \<exists>r. makeErrorEntry error item = Inr (r, error) \<and> P item r"
  shows "\<exists>rs. mapErrorEntries error items = Inr rs \<and> list_all2 P items rs"
  using assms by (induction items) auto

lemma makeErrorResponsePayload_shape_single:
  assumes "isErrorObject error" and "isRequest orig"
  shows "\<exists>r. makeErrorResponsePayload orig error = Inr r \<and> responseShape orig r"
proof -
  from assms(2) obtain ps where orig: "orig = Obj ps"
    by (auto simp: isRequest_def split: jsval.splits)
  from makeErrorEntry_shape[OF assms] obtain r
    where "makeErrorEntry error orig = Inr (r, error)" "responseShape orig r" by blast
  then show ?thesis
    by (simp add: makeErrorResponsePayload_def orig)
qed

lemma makeErrorResponsePayload_shape_batch:
  assumes "isErrorObject error" and "list_all isRequest items"
  shows "\<exists>rs. makeErrorResponsePayload (Arr items) error = Inr (Arr rs) \<and> list_all2 responseShape items rs"
proof -
  have "\<forall>item\<in>set items. \<exists>r. makeErrorEntry error item = Inr (r, error) \<and> responseShape item r"
    using assms makeErrorEntry_shape by (auto simp: list_all_iff)
  from mapErrorEntries_uniform[OF this] show ?thesis
    by (auto simp: makeErrorResponsePayload_def)
qed

lemma getProp_other: "getProp v k = Inr x \<Longrightarrow> \<exists>y. getProp v k' = Inr y"
  by (cases v) simp_all

lemma makeResponseEntry_success:
  assumes "getProp fr ''error'' = Inr err" and "\<not> truthy err" and "getProp fr ''result'' = Inr res"
  shows "makeResponseEntry (Obj ps) fr =
           Inr (Obj (AList.update ''jsonrpc'' (Str ''2.0'')
                  (if truthy (lookupProp ps ''id'')
                   then AList.delete ''method'' (AList.delete ''params''
                          (extendObj (extendObj [] (Obj ps)) (Obj [(''result'', res)])))
                   else extendObj (extendObj [] (Obj ps)) (Obj [(''result'', res)]))))"
  using assms by (simp add: makeResponseEntry_def)

lemma map_of_success_body:
  "map_of (extendObj (extendObj [] (Obj ps)) (Obj [(''result'', res)])) k =
     (if k = ''result'' then Some res else map_of ps k)"
  by (simp add: map_of_extend_Obj split: option.splits)

lemma mapResponseEntries_nth:
  "mapResponseEntries fv idx items = Inr rs \<Longrightarrow>
     length rs = length items \<and>
     (\<forall>i<length items. \<exists>fr. getIndex fv (idx + i) = Inr fr \<and>
        makeResponseEntry (items ! i) fr = Inr (rs ! i))"
proof (induction items arbitrary: idx rs)
  case Nil
  then show ?case by simp
next
  case (Cons item items)
  from Cons.prems obtain fr r rs' where
    fr: "getIndex fv idx = Inr fr" and r: "makeResponseEntry item fr = Inr r"
    and rs': "mapResponseEntries fv (Suc idx) items = Inr rs'" and rs: "rs = r # rs'"
    by (auto split: sum.splits)
  from Cons.IH[OF rs'] have len: "length rs' = length items"
    and nth: "\<And>i. i < length items \<Longrightarrow> \<exists>fr. getIndex fv (Suc idx + i) = Inr fr \<and>
        makeResponseEntry (items ! i) fr = Inr (rs' ! i)" by auto
  show ?case
  proof (intro conjI allI impI)
    show "length rs = length (item # items)" using len rs by simp
  next
    fix i assume "i < length (item # items)"
    then show "\<exists>fr. getIndex fv (idx + i) = Inr fr \<and>
        makeResponseEntry ((item # items) ! i) fr = Inr (rs ! i)"
      using fr r nth rs by (cases i) auto
  qed
qed

lemma mapResponseEntries_all:
  "(\<forall>i<length items. \<exists>fr r. getIndex fv (idx + i) = Inr fr \<and>
        makeResponseEntry (items ! i) fr = Inr r \<and> P (items ! i) r) \<Longrightarrow>
   \<exists>rs. mapResponseEntries fv idx items = Inr rs \<and> list_all2 P items rs"
proof (induction items arbitrary: idx)
  case Nil
  then show ?case by simp
next
  case (Cons item items)
  from Cons.prems[rule_format, of 0] obtain fr r where
    fr: "getIndex fv idx = Inr fr" and r: "makeResponseEntry item fr = Inr r" and P: "P item r"
    by auto
  have "\<forall>i<length items. \<exists>fr r. getIndex fv (Suc idx + i) = Inr fr \<and>
        makeResponseEntry (items ! i) fr = Inr r \<and> P (items ! i) r"
  proof (intro allI impI)
    fix i assume "i < length items"
    then have "Suc i < length (item # items)" by simp
    from Cons.prems[rule_format, OF this] show "\<exists>fr r. getIndex fv (Suc idx + i) = Inr fr \<and>
        makeResponseEntry (items ! i) fr = Inr r \<and> P (items ! i) r" by simp
  qed
  from Cons.IH[OF this] obtain rs where "mapResponseEntries fv (Suc idx) items = Inr rs"
    "list_all2 P items rs" by blast
  with fr r P show ?case by simp
qed

lemma responseShape_finish:
  assumes "responseShape item r"
  shows "responseShape item
           (setProp (if c then deleteProp (deleteProp r ''params'') ''method'' else r)
              ''jsonrpc'' (Str ''2.0''))"
  using assms
  by (cases r) (simp_all add: responseShape_def lookupProp_update lookupProp_delete)

lemma makeResponseEntry_shape:
  assumes "isRequest item" and "isReply fr"
  shows "\<exists>r. makeResponseEntry item fr = Inr r \<and> responseShape item r"
proof -
  from assms(1) obtain ps where item: "item = Obj ps"
    and ne: "lookupProp ps ''error'' = Undefined"
    by (auto simp: isRequest_def split: jsval.splits)
  from assms(2) obtain rs where fr: "fr = Obj rs"
    by (auto simp: isReply_def split: jsval.splits)
  show ?thesis
  proof (cases "truthy (lookupProp rs ''error'')")
    case True
    with assms(2) have "isErrorObject (lookupProp rs ''error'')"
      by (simp add: isReply_def fr)
    from makeErrorResponsePayload_shape_single[OF this assms(1)] obtain r where
      r: "makeErrorResponsePayload item (lookupProp rs ''error'') = Inr r" "responseShape item r"
      by blast
    have "makeResponseEntry item fr =
            Inr (setProp (if truthy (lookupProp ps ''id'')
                          then deleteProp (deleteProp r ''params'') ''method'' else r)
                   ''jsonrpc'' (Str ''2.0''))"
      using True r(1) by (simp add: makeResponseEntry_def fr item)
    with responseShape_finish[OF r(2)] show ?thesis by simp
  next
    case False
    with assms(2) have res: "lookupProp rs ''result'' \<noteq> Undefined"
      by (simp add: isReply_def fr)
    have body: "lookupProp (extendObj (extendObj [] (Obj ps)) (Obj [(''result'', res)])) k =
                  (if k = ''result'' then res else lookupProp ps k)" for res k
      by (simp add: lookupProp_def map_of_success_body)
    have "getProp fr ''error'' = Inr (lookupProp rs ''error'')"
      "getProp fr ''result'' = Inr (lookupProp rs ''result'')" by (simp_all add: fr)
    from makeResponseEntry_success[OF this(1) False this(2)] show ?thesis
      unfolding item using res ne
      by (simp add: responseShape_def lookupProp_update lookupProp_delete body)
  qed
qed


section \<open>Successful responses keep the request's fields when the id is falsy\<close>

text \<open>
  Claim C10. In the branch of \<^verbatim>\<open>_makeResponsePayload\<close> for a reply without an error, \<^verbatim>\<open>params\<close>
  and \<^verbatim>\<open>method\<close> are deleted from the response entry exactly when the request item's id is
  truthy: for an item whose id is missing, \<^verbatim>\<open>null\<close>, \<^verbatim>\<open>0\<close> or otherwise falsy, the entry keeps
  the item's \<^verbatim>\<open>params\<close> and \<^verbatim>\<open>method\<close> next to \<^verbatim>\<open>result\<close> and \<^verbatim>\<open>jsonrpc\<close>. This holds for a
  single request and for every item of a batch whose shaping returns.
\<close>

theorem falsy_id_keeps_request_fields:
  "(getProp value ''error'' = Inr err \<and> \<not> truthy err \<longrightarrow>
      (\<exists>ret res. makeResponsePayload (Obj ps) value = Inr (Obj ret) \<and>
         getProp value ''result'' = Inr res \<and>
         map_of ret ''result'' = Some res \<and> map_of ret ''jsonrpc'' = Some (Str ''2.0'') \<and>
         (if truthy (lookupProp ps ''id'')
          then map_of ret ''params'' = None \<and> map_of ret ''method'' = None
          else map_of ret ''params'' = map_of ps ''params'' \<and>
               map_of ret ''method'' = map_of ps ''method''))) \<and>
   (makeResponsePayload (Arr items) batchValue = Inr r \<and> i < length items \<and>
    items ! i = Obj qs \<and> getIndex batchValue i = Inr fr \<and>
    getProp fr ''error'' = Inr ferr \<and> \<not> truthy ferr \<longrightarrow>
      (\<exists>rs ret res. r = Arr rs \<and> length rs = length items \<and> rs ! i = Obj ret \<and>
         getProp fr ''result'' = Inr res \<and>
         map_of ret ''result'' = Some res \<and> map_of ret ''jsonrpc'' = Some (Str ''2.0'') \<and>
         (if truthy (lookupProp qs ''id'')
          then map_of ret ''params'' = None \<and> map_of ret ''method'' = None
          else map_of ret ''params'' = map_of qs ''params'' \<and>
               map_of ret ''method'' = map_of qs ''method'')))"
proof -
  have entry: "\<exists>ret res. makeResponseEntry (Obj ps) fr = Inr (Obj ret) \<and>
         getProp fr ''result'' = Inr res \<and>
         map_of ret ''result'' = Some res \<and> map_of ret ''jsonrpc'' = Some (Str ''2.0'') \<and>
         (if truthy (lookupProp ps ''id'')
          then map_of ret ''params'' = None \<and> map_of ret ''method'' = None
          else map_of ret ''params'' = map_of ps ''params'' \<and>
               map_of ret ''method'' = map_of ps ''method'')"
    if "getProp fr ''error'' = Inr err" "\<not> truthy err" for ps fr err
  proof -
    from getProp_other[OF that(1)] obtain res where res: "getProp fr ''result'' = Inr res"
      by blast
    show ?thesis
      unfolding makeResponseEntry_success[OF that res]
      by (simp add: res update_conv' delete_conv' map_of_success_body)
  qed
  show ?thesis
  proof (intro conjI impI)
    assume a: "getProp value ''error'' = Inr err \<and> \<not> truthy err"
    from entry[of "value" err ps] a obtain ret res where
      e: "makeResponseEntry (Obj ps) value = Inr (Obj ret)" and
      rest: "getProp value ''result'' = Inr res"
         "map_of ret ''result'' = Some res" "map_of ret ''jsonrpc'' = Some (Str ''2.0'')"
         "(if truthy (lookupProp ps ''id'')
          then map_of ret ''params'' = None \<and> map_of ret ''method'' = None
          else map_of ret ''params'' = map_of ps ''params'' \<and>
               map_of ret ''method'' = map_of ps ''method'')"
      by blast
    have "makeResponsePayload (Obj ps) value = Inr (Obj ret)"
      by (simp add: makeResponsePayload_def e)
    with rest show "\<exists>ret res. makeResponsePayload (Obj ps) value = Inr (Obj ret) \<and>
         getProp value ''result'' = Inr res \<and>
         map_of ret ''result'' = Some res \<and> map_of ret ''jsonrpc'' = Some (Str ''2.0'') \<and>
         (if truthy (lookupProp ps ''id'')
          then map_of ret ''params'' = None \<and> map_of ret ''method'' = None
          else map_of ret ''params'' = map_of ps ''params'' \<and>
               map_of ret ''method'' = map_of ps ''method'')"
      by blast
  next
    assume b: "makeResponsePayload (Arr items) batchValue = Inr r \<and> i < length items \<and>
      items ! i = Obj qs \<and> getIndex batchValue i = Inr fr \<and>
      getProp fr ''error'' = Inr ferr \<and> \<not> truthy ferr"
    then obtain rs where rs: "mapResponseEntries batchValue 0 items = Inr rs" and r: "r = Arr rs"
      by (auto simp: makeResponsePayload_def split: sum.splits)
    from mapResponseEntries_nth[OF rs] b have len: "length rs = length items"
      and "makeResponseEntry (Obj qs) fr = Inr (rs ! i)"
      by auto
    with entry[of fr ferr qs] b r show "\<exists>rs ret res. r = Arr rs \<and> length rs = length items \<and>
         rs ! i = Obj ret \<and> getProp fr ''result'' = Inr res \<and>
         map_of ret ''result'' = Some res \<and> map_of ret ''jsonrpc'' = Some (Str ''2.0'') \<and>
         (if truthy (lookupProp qs ''id'')
          then map_of ret ''params'' = None \<and> map_of ret ''method'' = None
          else map_of ret ''params'' = map_of qs ''params'' \<and>
               map_of ret ''method'' = map_of qs ''method'')"
      by auto
  qed
qed

text \<open>The theorem at a single request with id \<^verbatim>\<open>0\<close> and at a batch whose second item has no id.\<close>

theorem falsy_id_keeps_request_fields_witness:
  "(getProp (Obj [(''id'', Num ''0''), (''result'', Str ''0x1'')]) ''error'' = Inr Undefined \<and>
    \<not> truthy Undefined) \<and>
   (\<exists>ret. makeResponsePayload
            (Obj [(''id'', Num ''0''), (''method'', Str ''eth_call''), (''params'', Arr [])])
            (Obj [(''id'', Num ''0''), (''result'', Str ''0x1'')]) = Inr (Obj ret) \<and>
          map_of ret ''params'' = Some (Arr []) \<and> map_of ret ''method'' = Some (Str ''eth_call'')) \<and>
   (makeResponsePayload
      (Arr [Obj [(''id'', Num ''5''), (''method'', Str ''eth_a'')], Obj [(''method'', Str ''eth_b'')]])
      (Arr [Obj [(''id'', Num ''5''), (''result'', Num ''1'')], Obj [(''result'', Num ''2'')]]) =
      Inr (Arr [Obj [(''id'', Num ''5''), (''result'', Num ''1''), (''jsonrpc'', Str ''2.0'')],
                Obj [(''method'', Str ''eth_b''), (''result'', Num ''2''), (''jsonrpc'', Str ''2.0'')]]) \<and>
    (1::nat) < length [Obj [(''id'', Num ''5''), (''method'', Str ''eth_a'')], Obj [(''method'', Str ''eth_b'')]] \<and>
    [Obj [(''id'', Num ''5''), (''method'', Str ''eth_a'')], Obj [(''method'', Str ''eth_b'')]] ! 1 =
      Obj [(''method'', Str ''eth_b'')] \<and>
    getIndex (Arr [Obj [(''id'', Num ''5''), (''result'', Num ''1'')], Obj [(''result'', Num ''2'')]]) 1 =
      Inr (Obj [(''result'', Num ''2'')]) \<and>
    getProp (Obj [(''result'', Num ''2'')]) ''error'' = Inr Undefined)"
proof -
  have h1: "getProp (Obj [(''id'', Num ''0''), (''result'', Str ''0x1'')]) ''error'' = Inr Undefined \<and>
    \<not> truthy Undefined"
    by (simp add: lookupProp_def)
  have h2: "makeResponsePayload
      (Arr [Obj [(''id'', Num ''5''), (''method'', Str ''eth_a'')], Obj [(''method'', Str ''eth_b'')]])
      (Arr [Obj [(''id'', Num ''5''), (''result'', Num ''1'')], Obj [(''result'', Num ''2'')]]) =
      Inr (Arr [Obj [(''id'', Num ''5''), (''result'', Num ''1''), (''jsonrpc'', Str ''2.0'')],
                Obj [(''method'', Str ''eth_b''), (''result'', Num ''2''), (''jsonrpc'', Str ''2.0'')]]) \<and>
    (1::nat) < length [Obj [(''id'', Num ''5''), (''method'', Str ''eth_a'')], Obj [(''method'', Str ''eth_b'')]] \<and>
    [Obj [(''id'', Num ''5''), (''method'', Str ''eth_a'')], Obj [(''method'', Str ''eth_b'')]] ! 1 =
      Obj [(''method'', Str ''eth_b'')] \<and>
    getIndex (Arr [Obj [(''id'', Num ''5''), (''result'', Num ''1'')], Obj [(''result'', Num ''2'')]]) 1 =
      Inr (Obj [(''result'', Num ''2'')]) \<and>
    getProp (Obj [(''result'', Num ''2'')]) ''error'' = Inr Undefined"
    by (simp add: makeResponsePayload_def makeResponseEntry_def extendObj_def lookupProp_def)
  from falsy_id_keeps_request_fields
         [of "Obj [(''id'', Num ''0''), (''result'', Str ''0x1'')]" Undefined
             "[(''id'', Num ''0''), (''method'', Str ''eth_call''), (''params'', Arr [])]"
             "[Obj [(''id'', Num ''5''), (''method'', Str ''eth_a'')], Obj [(''method'', Str ''eth_b'')]]"
             "Arr [Obj [(''id'', Num ''5''), (''result'', Num ''1'')], Obj [(''result'', Num ''2'')]]"
             "Arr [Obj [(''id'', Num ''5''), (''result'', Num ''1''), (''jsonrpc'', Str ''2.0'')],
                Obj [(''method'', Str ''eth_b''), (''result'', Num ''2''), (''jsonrpc'', Str ''2.0'')]]"
             1 "[(''method'', Str ''eth_b'')]" "Obj [(''result'', Num ''2'')]" Undefined] h1
  have "\<exists>ret. makeResponsePayload
            (Obj [(''id'', Num ''0''), (''method'', Str ''eth_call''), (''params'', Arr [])])
            (Obj [(''id'', Num ''0''), (''result'', Str ''0x1'')]) = Inr (Obj ret) \<and>
          map_of ret ''params'' = Some (Arr []) \<and> map_of ret ''method'' = Some (Str ''eth_call'')"
    by (auto simp: lookupProp_def)
  with h1 h2 show ?thesis by blast
qed


section \<open>The form of shaped responses\<close>

text \<open>
  Claim C4, as the code has it. A successful single request \<^verbatim>\<open>{method: m, id: 7}\<close>, that is
  one whose reply is an object without a truthy error, is answered by
  \<^verbatim>\<open>{id: 7, result: <the reply's result>, jsonrpc: "2.0"}\<close>, without \<^verbatim>\<open>params\<close> and \<^verbatim>\<open>method\<close>.
  For request items that are objects without an \<^verbatim>\<open>error\<close> field and whose method has a
  string form, \<^verbatim>\<open>_makeResponsePayload\<close> and \<^verbatim>\<open>_makeErrorResponsePayload\<close> return a single entry
  for a single request and an array with one entry per item for a batch (given one reply per
  item); every entry carries \<^verbatim>\<open>jsonrpc: "2.0"\<close>, the id of its item, and exactly one of
  \<^verbatim>\<open>result\<close> and \<^verbatim>\<open>error\<close>, provided that every error is an object without \<^verbatim>\<open>jsonrpc\<close> and
  \<^verbatim>\<open>result\<close> fields whose message is a non-empty string, and that every reply is an object
  that has such an error or else has no truthy error and has a result.
\<close>

theorem shaped_payload_has_response_form:
  "(\<not> truthy (lookupProp rs ''error'') \<longrightarrow>
      makeResponsePayload (Obj [(''method'', Str m), (''id'', Num ''7'')]) (Obj rs) =
        Inr (Obj [(''id'', Num ''7''), (''result'', lookupProp rs ''result''), (''jsonrpc'', Str ''2.0'')])) \<and>
   (isRequest orig \<and> isReply value \<longrightarrow>
      (\<exists>r. makeResponsePayload orig value = Inr r \<and> responseShape orig r)) \<and>
   (list_all isRequest items \<and> list_all isReply vals \<and> length vals = length items \<longrightarrow>
      (\<exists>rs. makeResponsePayload (Arr items) (Arr vals) = Inr (Arr rs) \<and>
            list_all2 responseShape items rs)) \<and>
   (isRequest orig \<and> isErrorObject error \<longrightarrow>
      (\<exists>r. makeErrorResponsePayload orig error = Inr r \<and> responseShape orig r)) \<and>
   (list_all isRequest items \<and> isErrorObject error \<longrightarrow>
      (\<exists>rs. makeErrorResponsePayload (Arr items) error = Inr (Arr rs) \<and>
            list_all2 responseShape items rs))"
proof (intro conjI impI)
  assume "\<not> truthy (lookupProp rs ''error'')"
  then show "makeResponsePayload (Obj [(''method'', Str m), (''id'', Num ''7'')]) (Obj rs) =
        Inr (Obj [(''id'', Num ''7''), (''result'', lookupProp rs ''result''), (''jsonrpc'', Str ''2.0'')])"
    by (simp add: makeResponsePayload_def makeResponseEntry_def extendObj_def lookupProp_Cons)
next
  assume a: "isRequest orig \<and> isReply value"
  then obtain ps where orig: "orig = Obj ps"
    by (auto simp: isRequest_def split: jsval.splits)
  from makeResponseEntry_shape[of orig "value"] a obtain r where
    "makeResponseEntry orig value = Inr r" "responseShape orig r" by blast
  then show "\<exists>r. makeResponsePayload orig value = Inr r \<and> responseShape orig r"
    by (simp add: makeResponsePayload_def orig)
next
  assume b: "list_all isRequest items \<and> list_all isReply vals \<and> length vals = length items"
  have "\<forall>i<length items. \<exists>fr r. getIndex (Arr vals) (0 + i) = Inr fr \<and>
        makeResponseEntry (items ! i) fr = Inr r \<and> responseShape (items ! i) r"
  proof (intro allI impI)
    fix i assume i: "i < length items"
    with b have "isRequest (items ! i)" "isReply (vals ! i)"
      by (simp_all add: list_all_length)
    from makeResponseEntry_shape[OF this] i b
    show "\<exists>fr r. getIndex (Arr vals) (0 + i) = Inr fr \<and>
        makeResponseEntry (items ! i) fr = Inr r \<and> responseShape (items ! i) r"
      by simp
  qed
  from mapResponseEntries_all[OF this]
  show "\<exists>rs. makeResponsePayload (Arr items) (Arr vals) = Inr (Arr rs) \<and>
            list_all2 responseShape items rs"
    by (auto simp: makeResponsePayload_def)
next
  assume "isRequest orig \<and> isErrorObject error"
  then show "\<exists>r. makeErrorResponsePayload orig error = Inr r \<and> responseShape orig r"
    using makeErrorResponsePayload_shape_single by blast
next
  assume "list_all isRequest items \<and> isErrorObject error"
  then show "\<exists>rs. makeErrorResponsePayload (Arr items) error = Inr (Arr rs) \<and>
            list_all2 responseShape items rs"
    using makeErrorResponsePayload_shape_batch by blast
qed

text \<open>The theorem at a single request and a batch of two, with a reply, a denied method and
  a timeout.\<close>

theorem shaped_payload_has_response_form_witness:
  "\<not> truthy (lookupProp [(''id'', Num ''7''), (''result'', Str ''0x10'')] ''error'') \<and>
   isRequest (Obj [(''method'', Str ''eth_getBalance''), (''params'', Arr []), (''id'', Num ''3'')]) \<and>
   isReply (Obj [(''id'', Num ''3''), (''result'', Str ''0x0'')]) \<and>
   list_all isRequest [Obj [(''method'', Str ''eth_a''), (''id'', Num ''1'')],
                       Obj [(''method'', Str ''eth_b''), (''id'', Num ''2'')]] \<and>
   list_all isReply [Obj [(''id'', Num ''1''), (''result'', Num ''4'')],
                     Obj [(''id'', Num ''2''), (''error'', METHOD_DENIED)]] \<and>
   isErrorObject METHOD_TIMEOUT \<and>
   makeResponsePayload (Obj [(''method'', Str ''eth_blockNumber''), (''id'', Num ''7'')])
       (Obj [(''id'', Num ''7''), (''result'', Str ''0x10'')]) =
     Inr (Obj [(''id'', Num ''7''), (''result'', Str ''0x10''), (''jsonrpc'', Str ''2.0'')]) \<and>
   (\<exists>r. makeResponsePayload
           (Obj [(''method'', Str ''eth_getBalance''), (''params'', Arr []), (''id'', Num ''3'')])
           (Obj [(''id'', Num ''3''), (''result'', Str ''0x0'')]) = Inr r \<and>
        responseShape (Obj [(''method'', Str ''eth_getBalance''), (''params'', Arr []), (''id'', Num ''3'')]) r) \<and>
   (\<exists>rs. makeResponsePayload
            (Arr [Obj [(''method'', Str ''eth_a''), (''id'', Num ''1'')],
                  Obj [(''method'', Str ''eth_b''), (''id'', Num ''2'')]])
            (Arr [Obj [(''id'', Num ''1''), (''result'', Num ''4'')],
                  Obj [(''id'', Num ''2''), (''error'', METHOD_DENIED)]]) = Inr (Arr rs) \<and>
         list_all2 responseShape [Obj [(''method'', Str ''eth_a''), (''id'', Num ''1'')],
                                  Obj [(''method'', Str ''eth_b''), (''id'', Num ''2'')]] rs) \<and>
   (\<exists>r. makeErrorResponsePayload
           (Obj [(''method'', Str ''eth_getBalance''), (''params'', Arr []), (''id'', Num ''3'')])
           METHOD_TIMEOUT = Inr r \<and>
        responseShape (Obj [(''method'', Str ''eth_getBalance''), (''params'', Arr []), (''id'', Num ''3'')]) r) \<and>
   (\<exists>rs. makeErrorResponsePayload
            (Arr [Obj [(''method'', Str ''eth_a''), (''id'', Num ''1'')],
                  Obj [(''method'', Str ''eth_b''), (''id'', Num ''2'')]]) METHOD_TIMEOUT = Inr (Arr rs) \<and>
         list_all2 responseShape [Obj [(''method'', Str ''eth_a''), (''id'', Num ''1'')],
                                  Obj [(''method'', Str ''eth_b''), (''id'', Num ''2'')]] rs)"
proof -
  have h1: "\<not> truthy (lookupProp [(''id'', Num ''7''), (''result'', Str ''0x10'')] ''error'')"
    by (simp add: lookupProp_def)
  have h2: "isRequest (Obj [(''method'', Str ''eth_getBalance''), (''params'', Arr []), (''id'', Num ''3'')])"
    by (simp add: isRequest_def lookupProp_def printable_def)
  have h3: "isReply (Obj [(''id'', Num ''3''), (''result'', Str ''0x0'')])"
    by (simp add: isReply_def lookupProp_def)
  have h4: "list_all isRequest [Obj [(''method'', Str ''eth_a''), (''id'', Num ''1'')],
                       Obj [(''method'', Str ''eth_b''), (''id'', Num ''2'')]]"
    by (simp add: isRequest_def lookupProp_def printable_def)
  have h5: "list_all isReply [Obj [(''id'', Num ''1''), (''result'', Num ''4'')],
                     Obj [(''id'', Num ''2''), (''error'', METHOD_DENIED)]]"
    by (simp add: isReply_def isErrorObject_def lookupProp_def METHOD_DENIED_def)
  have h6: "isErrorObject METHOD_TIMEOUT"
    by (simp add: isErrorObject_def lookupProp_def METHOD_TIMEOUT_def)
  from shaped_payload_has_response_form
         [of "[(''id'', Num ''7''), (''result'', Str ''0x10'')]" "''eth_blockNumber''"
             "Obj [(''method'', Str ''eth_getBalance''), (''params'', Arr []), (''id'', Num ''3'')]"
             "Obj [(''id'', Num ''3''), (''result'', Str ''0x0'')]"
             "[Obj [(''method'', Str ''eth_a''), (''id'', Num ''1'')],
               Obj [(''method'', Str ''eth_b''), (''id'', Num ''2'')]]"
             "[Obj [(''id'', Num ''1''), (''result'', Num ''4'')],
               Obj [(''id'', Num ''2''), (''error'', METHOD_DENIED)]]"
             METHOD_TIMEOUT]
       h1 h2 h3 h4 h5 h6
  show ?thesis by (simp add: lookupProp_Cons)
qed

text \<open>
  Claim C4 as the specification states it, for every error, fails. The error object is attached
  under \<^verbatim>\<open>if (e.message)\<close> only, so a reply whose error has an empty message is shaped into
  an entry with neither \<^verbatim>\<open>result\<close> nor \<^verbatim>\<open>error\<close> (and a stray \<^verbatim>\<open>message\<close>). And the fields of
  the error are copied into the entry, so an error that has a \<^verbatim>\<open>result\<close> field of its own
  is shaped into an entry with both \<^verbatim>\<open>result\<close> and \<^verbatim>\<open>error\<close>.
\<close>

theorem empty_message_counterexample:
  "isRequest (Obj [(''method'', Str ''m''), (''id'', Num ''7'')]) \<and>
   makeResponsePayload (Obj [(''method'', Str ''m''), (''id'', Num ''7'')])
     (Obj [(''jsonrpc'', Str ''2.0''), (''id'', Num ''7''),
           (''error'', Obj [(''code'', Num ''-32000''), (''message'', Str [])])]) =
     Inr (Obj [(''jsonrpc'', Str ''2.0''), (''code'', Num ''-32000''), (''message'', Str []),
               (''id'', Num ''7'')]) \<and>
   \<not> responseShape (Obj [(''method'', Str ''m''), (''id'', Num ''7'')])
       (Obj [(''jsonrpc'', Str ''2.0''), (''code'', Num ''-32000''), (''message'', Str []),
             (''id'', Num ''7'')]) \<and>
   makeErrorResponsePayload (Obj [(''method'', Str ''m''), (''id'', Num ''7'')])
     (Obj [(''code'', Num ''1''), (''message'', Str ''boom''), (''result'', Num ''5'')]) =
     Inr (Obj [(''jsonrpc'', Str ''2.0''), (''code'', Num ''1''), (''result'', Num ''5''),
               (''error'', Obj [(''message'', Str ''boom'')]), (''id'', Num ''7'')]) \<and>
   \<not> responseShape (Obj [(''method'', Str ''m''), (''id'', Num ''7'')])
       (Obj [(''jsonrpc'', Str ''2.0''), (''code'', Num ''1''), (''result'', Num ''5''),
             (''error'', Obj [(''message'', Str ''boom'')]), (''id'', Num ''7'')])"
  by (simp add: isRequest_def printable_def makeResponsePayload_def makeResponseEntry_def
      makeErrorResponsePayload_def makeErrorEntry_def finishErrorEntry_def extendObj_def
      lookupProp_def responseShape_def replaceQuoted_def Let_def)

section \<open>Properties of the catch handler and of the sanitizer\<close>

lemma makeErrorEntry_message_code:
  assumes "getProp item ''method'' = Inr meth" and "toString meth = Inr name"
    and "getProp item ''id'' = Inr i"
  shows "makeErrorEntry (Obj [(''message'', Str s), (''code'', c)]) item =
           Inr (if s = []
                then Obj [(''jsonrpc'', Str ''2.0''), (''message'', Str []), (''code'', c), (''id'', i)]
                else Obj [(''jsonrpc'', Str ''2.0''), (''code'', c),
                          (''error'', Obj [(''message'',
                             Str (replaceQuoted s ([CHR 0x27] @ name @ [CHR 0x27])))]),
                          (''id'', i)],
                Obj [(''message'', Str s), (''code'', c)])"
  using assms
  by (simp add: makeErrorEntry_def extendObj_def lookupProp_def finishErrorEntry_def Let_def)

lemma makeErrorEntry_falsy_message:
  assumes "\<not> truthy m" and "getProp item ''id'' = Inr i"
  shows "makeErrorEntry (Obj [(''message'', m), (''code'', c)]) item =
           Inr (Obj [(''jsonrpc'', Str ''2.0''), (''message'', m), (''code'', c), (''id'', i)],
                Obj [(''message'', m), (''code'', c)])"
  using assms
  by (simp add: makeErrorEntry_def extendObj_def lookupProp_def finishErrorEntry_def Let_def)

lemma getProp_total: "\<not> nullish v \<Longrightarrow> \<exists>x. getProp v k = Inr x"
  by (cases v) simp_all

lemma getProp_field: "getProp v k = Inr x \<Longrightarrow> field v k = x"
  by (simp add: field_def)

lemma getProp_nullish: "nullish v \<Longrightarrow> getProp v k = Inl (typeErrorRead k v)"
  by (cases v) simp_all

lemma makeErrorEntry_code:
  assumes "makeErrorEntry (Obj [(''message'', Str s), (''code'', c)]) item = Inr (e, err')"
    and "s \<noteq> []"
  shows "err' = Obj [(''message'', Str s), (''code'', c)] \<and> errorEntry c item e"
proof -
  have nn: "\<not> nullish item"
  proof
    assume "nullish item"
    then have "getProp item ''method'' = Inl (typeErrorRead ''method'' item)"
      by (rule getProp_nullish)
    with assms show False
      by (simp add: makeErrorEntry_def extendObj_def lookupProp_def Let_def)
  qed
  then obtain meth i where g: "getProp item ''method'' = Inr meth" "getProp item ''id'' = Inr i"
    using getProp_total by blast
  show ?thesis
  proof (cases "toString meth")
    case (Inl x)
    with assms g show ?thesis
      by (simp add: makeErrorEntry_def extendObj_def lookupProp_def Let_def)
  next
    case (Inr name)
    from assms makeErrorEntry_message_code[OF g(1) Inr g(2), of s c] getProp_field[OF g(2)]
    show ?thesis
      by (auto simp: errorEntry_def field_def lookupProp_def)
  qed
qed

lemma mapErrorEntries_code:
  assumes "mapErrorEntries (Obj [(''message'', Str s), (''code'', c)]) items = Inr es"
    and "s \<noteq> []"
  shows "list_all2 (errorEntry c) items es"
  using assms(1)
proof (induction items arbitrary: es)
  case Nil
  then show ?case by simp
next
  case (Cons item items)
  from Cons.prems obtain e err' es' where
    e: "makeErrorEntry (Obj [(''message'', Str s), (''code'', c)]) item = Inr (e, err')"
    and es': "mapErrorEntries err' items = Inr es'" and es: "es = e # es'"
    by (auto split: sum.splits prod.splits)
  from makeErrorEntry_code[OF e assms(2)] es' Cons.IH[of es'] es show ?case by simp
qed

lemma errCode_of_errMessage: "errMessage err = Inr m \<Longrightarrow> \<exists>c. errCode err = Inr c"
proof (cases err)
  case (Thrown v)
  assume "errMessage err = Inr m"
  with Thrown show ?thesis by (cases v) auto
qed simp_all

lemma concatPayload_single: "\<not> isArray v \<Longrightarrow> concatPayload v = [v]"
  by (cases v) simp_all

lemma catchHandler_single:
  assumes "\<not> isArray payload" and "errMessage err = Inr (Str s)" and "errCode err = Inr c"
    and "getProp (if truthy payload then payload else Obj []) ''method'' = Inr meth"
    and "toString meth = Inr name"
    and "getProp (if truthy payload then payload else Obj []) ''id'' = Inr i"
  shows "catchHandler payload err =
           Inr (if s = []
                then Obj [(''jsonrpc'', Str ''2.0''), (''message'', Str []), (''code'', c), (''id'', i)]
                else Obj [(''jsonrpc'', Str ''2.0''), (''code'', c),
                          (''error'', Obj [(''message'',
                             Str (replaceQuoted s ([CHR 0x27] @ name @ [CHR 0x27])))]),
                          (''id'', i)])"
proof -
  let ?item = "if truthy payload then payload else Obj []"
  have na: "\<not> isArray ?item" using assms(1) by simp
  then have c: "concatPayload ?item = [?item]" by (rule concatPayload_single)
  show ?thesis
    unfolding catchHandler_def
    using na by (simp add: assms(2,3) makeErrorResponsePayload_def c
        makeErrorEntry_message_code[OF assms(4,5,6)] cong: if_cong)
qed

lemma catchHandler_falsy_message:
  assumes "\<not> isArray payload" and "errMessage err = Inr m" and "\<not> truthy m"
    and "errCode err = Inr c"
    and "getProp (if truthy payload then payload else Obj []) ''id'' = Inr i"
  shows "catchHandler payload err =
           Inr (Obj [(''jsonrpc'', Str ''2.0''), (''message'', m), (''code'', c), (''id'', i)])"
proof -
  let ?item = "if truthy payload then payload else Obj []"
  have na: "\<not> isArray ?item" using assms(1) by simp
  then have c: "concatPayload ?item = [?item]" by (rule concatPayload_single)
  show ?thesis
    unfolding catchHandler_def
    using na by (simp add: assms(2,4) makeErrorResponsePayload_def c
        makeErrorEntry_falsy_message[OF assms(3,5)] cong: if_cong)
qed

text \<open>Whatever the request, what the catch handler returns for an error with a non-empty
  string message has one entry per item of the request, each with the error's code.\<close>

lemma catchHandler_code:
  assumes "catchHandler payload err = Inr v" and "errMessage err = Inr (Str s)" and "s \<noteq> []"
    and "errCode err = Inr c"
  shows "list_all2 (errorEntry c)
           (concatPayload (if truthy payload then payload else Obj [])) (concatPayload v)"
proof -
  let ?orig = "if truthy payload then payload else Obj []"
  from assms(1) obtain es where
    es: "mapErrorEntries (Obj [(''message'', Str s), (''code'', c)]) (concatPayload ?orig) = Inr es"
    and v: "v = (if isArray ?orig then Arr es else (case es of [] \<Rightarrow> Undefined | e # _ \<Rightarrow> e))"
    unfolding catchHandler_def assms(2,4)
    by (auto simp: makeErrorResponsePayload_def split: sum.splits)
  from mapErrorEntries_code[OF es assms(3)]
  have all: "list_all2 (errorEntry c) (concatPayload ?orig) es" .
  show ?thesis
  proof (cases "isArray ?orig")
    case True
    with v all show ?thesis by simp
  next
    case False
    then have "concatPayload ?orig = [?orig]" by (rule concatPayload_single)
    with all obtain e where e: "es = [e]" "errorEntry c ?orig e"
      by (auto simp: list_all2_Cons1)
    then obtain t where "field e ''error'' = Obj [(''message'', Str t)]"
      by (auto simp: errorEntry_def)
    then have "\<not> isArray e" by (cases e) (simp_all add: field_def)
    then have "concatPayload e = [e]" by (rule concatPayload_single)
    with False v e all show ?thesis by simp
  qed
qed

lemma eachBatchEntry_find:
  "eachBatchEntry env conn ps =
     (case find nullish ps of
        Some bad \<Rightarrow> Inl (typeErrorRead ''method'' bad)
      | None \<Rightarrow>
          Inr (map (\<lambda>p. if getProp p ''method'' = Inr (Str ''eth_sendTransaction'')
                         then setProp p ''error'' BATCH_TX_DENIED
                         else sanitizePayload (base env) conn p) ps))"
proof (induction ps)
  case Nil
  show ?case by simp
next
  case (Cons p ps)
  show ?case
  proof (cases "nullish p")
    case True
    then show ?thesis by (simp add: sanitizeBatchEntry_def getProp_nullish)
  next
    case False
    then obtain m where m: "getProp p ''method'' = Inr m" using getProp_total by blast
    with False Cons show ?thesis
      by (simp add: sanitizeBatchEntry_def split: option.splits)
  qed
qed

lemma dispatchRequest_sanitize_fails:
  assumes "isConnected env (conn_socket c)" and "jsonParse env raw = Inr parsed"
    and "sanitizeRequestPayload env c parsed = Inl x"
  shows "dispatchRequest env (Some c) raw = ([], Rejected x)"
  using assms by (simp add: dispatchRequest_def)

lemma sendRequest_rejected:
  assumes "jsonParse env raw = Inr payload"
    and "dispatchRequest env conn raw = ([], Rejected x)"
  shows "sendRequest env isSync ownerId (Fulfilled conn) raw = recover isSync ownerId payload x"
  using assms by (simp add: sendRequest_def split: prod.splits)

lemma recover_events:
  "fst (recover isSync ownerId payload err) = [LogError err] \<or>
   (\<exists>v. catchHandler payload err = Inr v \<and>
        recover isSync ownerId payload err = (LogError err # deliver isSync ownerId v, Fulfilled ()))"
  by (cases "catchHandler payload err") (simp_all add: recover_def)

lemma rawBatch_neq: "rawBatchRequest \<noteq> rawAdminRequest"
  by (simp add: rawBatchRequest_def rawAdminRequest_def)

section \<open>A transaction in a batch is denied, its siblings are sanitized\<close>

text \<open>
  Claim C1, as the code has it. \<^verbatim>\<open>_sanitizeRequestPayload\<close> visits the entries of a batch in
  order and reads the \<^verbatim>\<open>method\<close> of each. If the batch has an entry that is \<^verbatim>\<open>null\<close>, the
  read throws a \<^verbatim>\<open>TypeError\<close> at the first such entry and the pass ends there: on a connected
  socket the second step of \<^verbatim>\<open>_sendRequest\<close> is rejected with that error and no \<^verbatim>\<open>exec\<close> is
  called. Otherwise the pass runs to the end: every entry whose method is exactly the string
  \<^verbatim>\<open>eth_sendTransaction\<close> (the one method the code tests for) gets
  \<^verbatim>\<open>ERRORS.BATCH_TX_DENIED\<close> (code -32603) as its \<^verbatim>\<open>error\<close> and is not given to the base
  processor, and every other entry is what the base processor's \<^verbatim>\<open>sanitizePayload\<close> makes of
  it. Such a batch is not thrown the way a single payload with an error is: on a connected
  socket \<^verbatim>\<open>_sendRequest\<close> goes on to call \<^verbatim>\<open>exec\<close> with the whole sanitized batch (of the
  processor registered as \<^verbatim>\<open>undefined\<close> if there is one, since an array has no \<^verbatim>\<open>method\<close>;
  of the base processor otherwise).
\<close>

theorem batch_sendTransaction_entry_denied:
  "sanitizeRequestPayload env conn (Arr ps) =
     (case find nullish ps of
        Some bad \<Rightarrow> Inl (typeErrorRead ''method'' bad)
      | None \<Rightarrow>
          Inr (Arr (map (\<lambda>p. if getProp p ''method'' = Inr (Str ''eth_sendTransaction'')
                              then setProp p ''error'' BATCH_TX_DENIED
                              else sanitizePayload (base env) conn p) ps))) \<and>
   (getProp p ''method'' = Inr (Str ''eth_sendTransaction'') \<longrightarrow>
      getProp (setProp p ''error'' BATCH_TX_DENIED) ''error'' = Inr BATCH_TX_DENIED) \<and>
   getProp BATCH_TX_DENIED ''code'' = Inr (Num ''-32603'') \<and>
   (isConnected env (conn_socket conn) \<and> jsonParse env raw = Inr (Arr ps) \<longrightarrow>
      dispatchRequest env (Some conn) raw =
        (case sanitizeRequestPayload env conn (Arr ps) of
           Inl x \<Rightarrow> ([], Rejected x)
         | Inr batch \<Rightarrow>
            (case processors env ''undefined'' of
               None \<Rightarrow> ([Exec None conn batch], exec (base env) conn batch)
             | Some pr \<Rightarrow> ([Exec (Some ''undefined'') conn batch], exec pr conn batch))))"
proof (intro conjI impI)
  show "sanitizeRequestPayload env conn (Arr ps) =
     (case find nullish ps of
        Some bad \<Rightarrow> Inl (typeErrorRead ''method'' bad)
      | None \<Rightarrow>
          Inr (Arr (map (\<lambda>p. if getProp p ''method'' = Inr (Str ''eth_sendTransaction'')
                              then setProp p ''error'' BATCH_TX_DENIED
                              else sanitizePayload (base env) conn p) ps)))"
    by (simp add: eachBatchEntry_find split: option.splits)
next
  assume "getProp p ''method'' = Inr (Str ''eth_sendTransaction'')"
  then show "getProp (setProp p ''error'' BATCH_TX_DENIED) ''error'' = Inr BATCH_TX_DENIED"
    by (cases p) (simp_all add: lookupProp_update)
next
  show "getProp BATCH_TX_DENIED ''code'' = Inr (Num ''-32603'')"
    by (simp add: BATCH_TX_DENIED_def lookupProp_def)
next
  assume a: "isConnected env (conn_socket conn) \<and> jsonParse env raw = Inr (Arr ps)"
  have arr: "isArray batch" if "sanitizeRequestPayload env conn (Arr ps) = Inr batch" for batch
    using that by (auto split: sum.splits)
  show "dispatchRequest env (Some conn) raw =
        (case sanitizeRequestPayload env conn (Arr ps) of
           Inl x \<Rightarrow> ([], Rejected x)
         | Inr batch \<Rightarrow>
            (case processors env ''undefined'' of
               None \<Rightarrow> ([Exec None conn batch], exec (base env) conn batch)
             | Some pr \<Rightarrow> ([Exec (Some ''undefined'') conn batch], exec pr conn batch)))"
  proof (cases "sanitizeRequestPayload env conn (Arr ps)")
    case (Inl x)
    with a show ?thesis by (simp add: dispatchRequest_def del: sanitizeRequestPayload.simps)
  next
    case (Inr batch)
    from arr[OF Inr] obtain qs where "batch = Arr qs" by (cases batch) simp_all
    with a Inr show ?thesis
      by (simp add: dispatchRequest_def del: sanitizeRequestPayload.simps split: option.splits)
  qed
qed

text \<open>The theorem in the example environment, at a batch of a transaction and an
  \<^verbatim>\<open>eth_accounts\<close> call: the transaction is marked, the sibling goes through the base
  processor, and the whole batch is executed.\<close>

theorem batch_sendTransaction_entry_denied_witness:
  "getProp (Obj [(''id'', Num ''1''), (''method'', Str ''eth_sendTransaction''), (''params'', Arr [])])
     ''method'' = Inr (Str ''eth_sendTransaction'') \<and>
   isConnected exampleEnv (conn_socket (exampleConn 1)) \<and>
   jsonParse exampleEnv rawBatchRequest =
     Inr (Arr [Obj [(''id'', Num ''1''), (''method'', Str ''eth_sendTransaction''), (''params'', Arr [])],
               Obj [(''id'', Num ''2''), (''method'', Str ''eth_accounts'')]]) \<and>
   sanitizeRequestPayload exampleEnv (exampleConn 1)
     (Arr [Obj [(''id'', Num ''1''), (''method'', Str ''eth_sendTransaction''), (''params'', Arr [])],
           Obj [(''id'', Num ''2''), (''method'', Str ''eth_accounts'')]]) =
     Inr (Arr [Obj [(''id'', Num ''1''), (''method'', Str ''eth_sendTransaction''), (''params'', Arr []),
                    (''error'', BATCH_TX_DENIED)],
               Obj [(''id'', Num ''2''), (''method'', Str ''eth_accounts'')]]) \<and>
   getProp (Obj [(''id'', Num ''1''), (''method'', Str ''eth_sendTransaction''), (''params'', Arr []),
                 (''error'', BATCH_TX_DENIED)]) ''error'' = Inr BATCH_TX_DENIED \<and>
   dispatchRequest exampleEnv (Some (exampleConn 1)) rawBatchRequest =
     ([Exec None (exampleConn 1)
         (Arr [Obj [(''id'', Num ''1''), (''method'', Str ''eth_sendTransaction''), (''params'', Arr []),
                    (''error'', BATCH_TX_DENIED)],
               Obj [(''id'', Num ''2''), (''method'', Str ''eth_accounts'')]])],
      Fulfilled (Obj [(''jsonrpc'', Str ''2.0''), (''id'', Undefined), (''result'', Str ''0x1'')]))"
proof -
  let ?tx = "Obj [(''id'', Num ''1''), (''method'', Str ''eth_sendTransaction''), (''params'', Arr [])]"
  let ?ps = "[?tx, Obj [(''id'', Num ''2''), (''method'', Str ''eth_accounts'')]]"
  have h1: "getProp ?tx ''method'' = Inr (Str ''eth_sendTransaction'')"
    by (simp add: lookupProp_def)
  have h2: "isConnected exampleEnv (conn_socket (exampleConn 1))"
    by (simp add: exampleEnv_def exampleConn_def)
  have h3: "jsonParse exampleEnv rawBatchRequest = Inr (Arr ?ps)"
    by (simp add: exampleEnv_def exampleParse_def rawBatch_neq)
  note t = batch_sendTransaction_entry_denied[of exampleEnv "exampleConn 1" ?ps ?tx rawBatchRequest]
  from t have s: "sanitizeRequestPayload exampleEnv (exampleConn 1) (Arr ?ps) =
     Inr (Arr [Obj [(''id'', Num ''1''), (''method'', Str ''eth_sendTransaction''), (''params'', Arr []),
                    (''error'', BATCH_TX_DENIED)],
               Obj [(''id'', Num ''2''), (''method'', Str ''eth_accounts'')]])"
    by (simp add: exampleEnv_def exampleBase_def lookupProp_def)
  from t h1 have m: "getProp (Obj [(''id'', Num ''1''), (''method'', Str ''eth_sendTransaction''),
                 (''params'', Arr []), (''error'', BATCH_TX_DENIED)]) ''error'' = Inr BATCH_TX_DENIED"
    by (simp add: lookupProp_def)
  from t h2 h3 have "dispatchRequest exampleEnv (Some (exampleConn 1)) rawBatchRequest =
        (case sanitizeRequestPayload exampleEnv (exampleConn 1) (Arr ?ps) of
           Inl x \<Rightarrow> ([], Rejected x)
         | Inr batch \<Rightarrow>
            (case processors exampleEnv ''undefined'' of
               None \<Rightarrow> ([Exec None (exampleConn 1) batch], exec (base exampleEnv) (exampleConn 1) batch)
             | Some pr \<Rightarrow> ([Exec (Some ''undefined'') (exampleConn 1) batch],
                            exec pr (exampleConn 1) batch)))"
    by blast
  then have d: "dispatchRequest exampleEnv (Some (exampleConn 1)) rawBatchRequest =
     ([Exec None (exampleConn 1)
         (Arr [Obj [(''id'', Num ''1''), (''method'', Str ''eth_sendTransaction''), (''params'', Arr []),
                    (''error'', BATCH_TX_DENIED)],
               Obj [(''id'', Num ''2''), (''method'', Str ''eth_accounts'')]])],
      Fulfilled (Obj [(''jsonrpc'', Str ''2.0''), (''id'', Undefined), (''result'', Str ''0x1'')]))"
    unfolding s by (simp add: exampleEnv_def exampleBase_def field_def)
  from h1 h2 h3 s m d show ?thesis by blast
qed

text \<open>
  Claim C1 as the specification states it, for every batch, fails. For the batch
  \<^verbatim>\<open>[null, {id: 1, method: "eth_sendTransaction", params: []}]\<close> the pass throws at the first
  entry: the transaction is never marked, the request is rejected at sanitization time without
  any \<^verbatim>\<open>exec\<close>, and since the \<^verbatim>\<open>.catch\<close> handler reads \<^verbatim>\<open>item.method\<close> of the same \<^verbatim>\<open>null\<close> entry
  it fails too: the caller gets no answer.
\<close>

theorem null_batch_entry_counterexample:
  "jsonParse exampleEnv rawNullBatchRequest =
     Inr (Arr [Null, Obj [(''id'', Num ''1''), (''method'', Str ''eth_sendTransaction''),
                          (''params'', Arr [])]]) \<and>
   isConnected exampleEnv (conn_socket (exampleConn 1)) \<and>
   sanitizeRequestPayload exampleEnv (exampleConn 1)
     (Arr [Null, Obj [(''id'', Num ''1''), (''method'', Str ''eth_sendTransaction''),
                      (''params'', Arr [])]]) =
     Inl (TypeError ''Cannot read property 'method' of null'') \<and>
   dispatchRequest exampleEnv (Some (exampleConn 1)) rawNullBatchRequest =
     ([], Rejected (TypeError ''Cannot read property 'method' of null'')) \<and>
   sendRequest exampleEnv False 1 (Fulfilled (Some (exampleConn 1))) rawNullBatchRequest =
     ([LogError (TypeError ''Cannot read property 'method' of null'')],
      Rejected (TypeError ''Cannot read property 'method' of null''))"
proof -
  have ne: "rawNullBatchRequest \<noteq> rawAdminRequest" "rawNullBatchRequest \<noteq> rawBatchRequest"
    "rawNullBatchRequest \<noteq> rawBlockNumberRequest" "rawNullBatchRequest \<noteq> rawMinerRequest"
    "rawNullBatchRequest \<noteq> rawDebugRequest"
    by (simp_all add: rawNullBatchRequest_def rawAdminRequest_def rawBatchRequest_def
        rawBlockNumberRequest_def rawMinerRequest_def rawDebugRequest_def)
  have h1: "jsonParse exampleEnv rawNullBatchRequest =
     Inr (Arr [Null, Obj [(''id'', Num ''1''), (''method'', Str ''eth_sendTransaction''),
                          (''params'', Arr [])]])"
    by (simp add: exampleEnv_def exampleParse_def ne)
  have h2: "isConnected exampleEnv (conn_socket (exampleConn 1))"
    by (simp add: exampleEnv_def exampleConn_def)
  have s: "sanitizeRequestPayload exampleEnv (exampleConn 1)
     (Arr [Null, Obj [(''id'', Num ''1''), (''method'', Str ''eth_sendTransaction''),
                      (''params'', Arr [])]]) =
     Inl (TypeError ''Cannot read property 'method' of null'')"
    by (simp add: sanitizeBatchEntry_def typeErrorRead_def)
  have d: "dispatchRequest exampleEnv (Some (exampleConn 1)) rawNullBatchRequest =
     ([], Rejected (TypeError ''Cannot read property 'method' of null''))"
    by (rule dispatchRequest_sanitize_fails[OF h2 h1 s])
  have c: "catchHandler (Arr [Null, Obj [(''id'', Num ''1''), (''method'', Str ''eth_sendTransaction''),
                          (''params'', Arr [])]])
             (TypeError ''Cannot read property 'method' of null'') =
           Inl (TypeError ''Cannot read property 'method' of null'')"
    by (simp add: catchHandler_def makeErrorResponsePayload_def makeErrorEntry_def extendObj_def
        lookupProp_def typeErrorRead_def Let_def)
  have "sendRequest exampleEnv False 1 (Fulfilled (Some (exampleConn 1))) rawNullBatchRequest =
     ([LogError (TypeError ''Cannot read property 'method' of null'')],
      Rejected (TypeError ''Cannot read property 'method' of null''))"
    unfolding sendRequest_rejected[OF h1 d] by (simp add: recover_def c)
  with h1 h2 s d show ?thesis by blast
qed

section \<open>A request that is not JSON\<close>

text \<open>
  Claim C2, as the code has it. When \<^verbatim>\<open>JSON.parse\<close> throws, \<^verbatim>\<open>_sendRequest\<close> never fails: the
  \<^verbatim>\<open>.catch\<close> handler shapes the \<^verbatim>\<open>SyntaxError\<close> and the result is handed to the caller, as
  the return value of a synchronous call or as an \<^verbatim>\<open>ipcProvider-data\<close> message. When the
  parser's message is not empty the payload is
  \<^verbatim>\<open>{jsonrpc: "2.0", code: undefined, error: {message: M}, id: undefined}\<close>, where \<open>M\<close> is the
  parser's message with its first match of \<^verbatim>\<open>/'[a-z_]*'/i\<close> (a word in single quotes), if it
  has one, replaced by \<^verbatim>\<open>'undefined'\<close>, since the raw string has no method. When the message
  is empty the payload is \<^verbatim>\<open>{jsonrpc: "2.0", message: "", code: undefined, id: undefined}\<close>,
  without an \<^verbatim>\<open>error\<close> field. In neither case does it carry the invalid-payload error: its
  code is \<^verbatim>\<open>undefined\<close>, not -32600.
\<close>

theorem malformed_request_yields_parser_message:
  assumes "jsonParse env raw = Inl msg"
  shows "sendRequest env isSync ownerId connecting raw =
           (LogError (SyntaxError msg) #
            deliver isSync ownerId
              (if msg = []
               then Obj [(''jsonrpc'', Str ''2.0''), (''message'', Str []), (''code'', Undefined),
                         (''id'', Undefined)]
               else Obj [(''jsonrpc'', Str ''2.0''), (''code'', Undefined),
                         (''error'', Obj [(''message'',
                            Str (replaceQuoted msg ([CHR 0x27] @ ''undefined'' @ [CHR 0x27])))]),
                         (''id'', Undefined)]),
            Fulfilled ())"
proof -
  have item: "getProp (if truthy (Str raw) then Str raw else Obj []) ''method'' = Inr Undefined"
    "getProp (if truthy (Str raw) then Str raw else Obj []) ''id'' = Inr Undefined"
    by (simp_all add: lookupProp_def)
  have "catchHandler (Str raw) (SyntaxError msg) =
          Inr (if msg = []
               then Obj [(''jsonrpc'', Str ''2.0''), (''message'', Str []), (''code'', Undefined),
                         (''id'', Undefined)]
               else Obj [(''jsonrpc'', Str ''2.0''), (''code'', Undefined),
                         (''error'', Obj [(''message'',
                            Str (replaceQuoted msg ([CHR 0x27] @ ''undefined'' @ [CHR 0x27])))]),
                         (''id'', Undefined)])"
    by (rule catchHandler_single[OF _ _ _ item(1) _ item(2)]) simp_all
  then show ?thesis
    by (simp add: sendRequest_def assms recover_def)
qed

text \<open>The theorem at the text \<^verbatim>\<open>hello\<close>, sent synchronously, whose message has no quoted word,
  and at the text \<^verbatim>\<open>hi\<close>, whose message has one.\<close>

theorem malformed_request_yields_parser_message_witness:
  "jsonParse exampleEnv ''hello'' = Inl ''Unexpected token h in JSON at position 0'' \<and>
   sendRequest exampleEnv True 1 Pending ''hello'' =
     ([LogError (SyntaxError ''Unexpected token h in JSON at position 0''),
       SetReturnValue 1
         (Obj [(''jsonrpc'', Str ''2.0''), (''code'', Undefined),
               (''error'', Obj [(''message'', Str ''Unexpected token h in JSON at position 0'')]),
               (''id'', Undefined)])],
      Fulfilled ()) \<and>
   jsonParse exampleEnv ''hi'' = Inl quotedTokenMessage \<and>
   sendRequest exampleEnv False 1 Pending ''hi'' =
     ([LogError (SyntaxError quotedTokenMessage),
       SendData 1
         (Obj [(''jsonrpc'', Str ''2.0''), (''code'', Undefined),
               (''error'', Obj [(''message'', Str quotedTokenRewritten)]),
               (''id'', Undefined)])],
      Fulfilled ())"
proof -
  have h: "jsonParse exampleEnv ''hello'' = Inl ''Unexpected token h in JSON at position 0''"
    by (simp add: exampleEnv_def exampleParse_def rawAdminRequest_def rawBatchRequest_def
        rawBlockNumberRequest_def rawMinerRequest_def rawDebugRequest_def rawNullBatchRequest_def)
  have h': "jsonParse exampleEnv ''hi'' = Inl quotedTokenMessage"
    by (simp add: exampleEnv_def exampleParse_def rawAdminRequest_def rawBatchRequest_def
        rawBlockNumberRequest_def rawMinerRequest_def rawDebugRequest_def rawNullBatchRequest_def)
  have q: "quotedTokenMessage \<noteq> []" by (simp add: quotedTokenMessage_def)
  have r: "replaceQuoted quotedTokenMessage ([CHR 0x27] @ ''undefined'' @ [CHR 0x27]) =
             quotedTokenRewritten"
    by (simp add: replaceQuoted_def quotedTokenMessage_def quotedTokenRewritten_def isWordChar_def)
  from malformed_request_yields_parser_message[OF h, of True 1 Pending]
  have a: "sendRequest exampleEnv True 1 Pending ''hello'' =
     ([LogError (SyntaxError ''Unexpected token h in JSON at position 0''),
       SetReturnValue 1
         (Obj [(''jsonrpc'', Str ''2.0''), (''code'', Undefined),
               (''error'', Obj [(''message'', Str ''Unexpected token h in JSON at position 0'')]),
               (''id'', Undefined)])],
      Fulfilled ())"
    by (simp add: deliver_def replaceQuoted_def)
  from malformed_request_yields_parser_message[OF h', of False 1 Pending]
  have b: "sendRequest exampleEnv False 1 Pending ''hi'' =
     ([LogError (SyntaxError quotedTokenMessage),
       SendData 1
         (Obj [(''jsonrpc'', Str ''2.0''), (''code'', Undefined),
               (''error'', Obj [(''message'', Str quotedTokenRewritten)]),
               (''id'', Undefined)])],
      Fulfilled ())"
    unfolding r using q by (simp add: deliver_def)
  from h a h' b show ?thesis by blast
qed

text \<open>
  Claim C2 as the specification states it fails: \<^verbatim>\<open>ERRORS.INVALID_PAYLOAD\<close> is never thrown
  in this module, and the payload delivered for \<^verbatim>\<open>hello\<close> has no code -32600.
\<close>

theorem malformed_request_code_counterexample:
  "sendRequest exampleEnv False 1 Pending ''hello'' =
     ([LogError (SyntaxError ''Unexpected token h in JSON at position 0''),
       SendData 1
         (Obj [(''jsonrpc'', Str ''2.0''), (''code'', Undefined),
               (''error'', Obj [(''message'', Str ''Unexpected token h in JSON at position 0'')]),
               (''id'', Undefined)])],
      Fulfilled ()) \<and>
   field (Obj [(''jsonrpc'', Str ''2.0''), (''code'', Undefined),
               (''error'', Obj [(''message'', Str ''Unexpected token h in JSON at position 0'')]),
               (''id'', Undefined)]) ''code'' \<noteq> field INVALID_PAYLOAD ''code''"
  by (simp add: sendRequest_def exampleEnv_def exampleParse_def rawAdminRequest_def
      rawBatchRequest_def rawBlockNumberRequest_def rawMinerRequest_def rawDebugRequest_def rawNullBatchRequest_def
      recover_def catchHandler_def
      makeErrorResponsePayload_def makeErrorEntry_def finishErrorEntry_def extendObj_def
      lookupProp_def replaceQuoted_def deliver_def field_def INVALID_PAYLOAD_def Let_def)

section \<open>A socket that is not connected\<close>

text \<open>
  Claim C5. When the connection has been obtained and its socket is not connected, the second
  step of \<^verbatim>\<open>_sendRequest\<close> throws \<^verbatim>\<open>ERRORS.METHOD_TIMEOUT\<close> (code -32603) at once: nothing is
  sanitized and no \<^verbatim>\<open>exec\<close> is called, so no request is forwarded to the node. The error goes
  to the \<^verbatim>\<open>.catch\<close> handler, which logs it and shapes it for the request. Whatever it hands
  to the caller has one entry per item of the request, each with \<^verbatim>\<open>jsonrpc\<close>, code -32603,
  the id of its item and an \<^verbatim>\<open>error\<close> that holds a message; for a request object whose
  method has a string form the message is the time-out message for that method.
\<close>

theorem unconnected_socket_times_out:
  assumes "jsonParse env raw = Inr payload"
    and "\<not> isConnected env (conn_socket conn)"
  shows "dispatchRequest env (Some conn) raw = ([], Rejected (Thrown METHOD_TIMEOUT)) \<and>
         getProp METHOD_TIMEOUT ''code'' = Inr (Num ''-32603'') \<and>
         sendRequest env isSync ownerId (Fulfilled (Some conn)) raw =
           recover isSync ownerId payload (Thrown METHOD_TIMEOUT) \<and>
         (\<forall>name c p. Exec name c p \<notin>
            set (fst (sendRequest env isSync ownerId (Fulfilled (Some conn)) raw))) \<and>
         (fst (sendRequest env isSync ownerId (Fulfilled (Some conn)) raw) =
            [LogError (Thrown METHOD_TIMEOUT)] \<or>
          (\<exists>v. sendRequest env isSync ownerId (Fulfilled (Some conn)) raw =
                  (LogError (Thrown METHOD_TIMEOUT) # deliver isSync ownerId v, Fulfilled ()) \<and>
                list_all2 (errorEntry (Num ''-32603''))
                  (concatPayload (if truthy payload then payload else Obj []))
                  (concatPayload v))) \<and>
         (payload = Obj ps \<and> toString (lookupProp ps ''method'') = Inr name \<longrightarrow>
            sendRequest env isSync ownerId (Fulfilled (Some conn)) raw =
              (LogError (Thrown METHOD_TIMEOUT) #
               deliver isSync ownerId
                 (Obj [(''jsonrpc'', Str ''2.0''), (''code'', Num ''-32603''),
                       (''error'', Obj [(''message'',
                          Str (replaceQuoted ''Request timed out for method  '__method__'.''
                                 ([CHR 0x27] @ name @ [CHR 0x27])))]),
                       (''id'', lookupProp ps ''id'')]),
               Fulfilled ()))"
proof -
  let ?run = "sendRequest env isSync ownerId (Fulfilled (Some conn)) raw"
  have d: "dispatchRequest env (Some conn) raw = ([], Rejected (Thrown METHOD_TIMEOUT))"
    using assms(2) by (simp add: dispatchRequest_def)
  have m: "errMessage (Thrown METHOD_TIMEOUT) = Inr (Str ''Request timed out for method  '__method__'.'')"
    "errCode (Thrown METHOD_TIMEOUT) = Inr (Num ''-32603'')"
    by (simp_all add: METHOD_TIMEOUT_def lookupProp_def)
  have code: "getProp METHOD_TIMEOUT ''code'' = Inr (Num ''-32603'')"
    by (simp add: METHOD_TIMEOUT_def lookupProp_def)
  have s: "?run = recover isSync ownerId payload (Thrown METHOD_TIMEOUT)"
    by (rule sendRequest_rejected[OF assms(1) d])
  have noexec: "\<forall>name c p. Exec name c p \<notin> set (fst ?run)"
    unfolding s by (cases "catchHandler payload (Thrown METHOD_TIMEOUT)")
      (simp_all add: recover_def deliver_def)
  have entries: "fst ?run = [LogError (Thrown METHOD_TIMEOUT)] \<or>
          (\<exists>v. ?run = (LogError (Thrown METHOD_TIMEOUT) # deliver isSync ownerId v, Fulfilled ()) \<and>
                list_all2 (errorEntry (Num ''-32603''))
                  (concatPayload (if truthy payload then payload else Obj []))
                  (concatPayload v))"
  proof (cases "catchHandler payload (Thrown METHOD_TIMEOUT)")
    case (Inl x)
    then show ?thesis unfolding s by (simp add: recover_def)
  next
    case (Inr v)
    from catchHandler_code[OF Inr m(1) _ m(2)]
    have "list_all2 (errorEntry (Num ''-32603''))
            (concatPayload (if truthy payload then payload else Obj [])) (concatPayload v)"
      by simp
    moreover have "?run = (LogError (Thrown METHOD_TIMEOUT) # deliver isSync ownerId v, Fulfilled ())"
      unfolding s by (simp add: recover_def Inr)
    ultimately show ?thesis by blast
  qed
  have single: "?run =
              (LogError (Thrown METHOD_TIMEOUT) #
               deliver isSync ownerId
                 (Obj [(''jsonrpc'', Str ''2.0''), (''code'', Num ''-32603''),
                       (''error'', Obj [(''message'',
                          Str (replaceQuoted ''Request timed out for method  '__method__'.''
                                 ([CHR 0x27] @ name @ [CHR 0x27])))]),
                       (''id'', lookupProp ps ''id'')]),
               Fulfilled ())"
    if p: "payload = Obj ps" and n: "toString (lookupProp ps ''method'') = Inr name"
  proof -
    have "catchHandler (Obj ps) (Thrown METHOD_TIMEOUT) =
            Inr (Obj [(''jsonrpc'', Str ''2.0''), (''code'', Num ''-32603''),
                       (''error'', Obj [(''message'',
                          Str (replaceQuoted ''Request timed out for method  '__method__'.''
                                 ([CHR 0x27] @ name @ [CHR 0x27])))]),
                       (''id'', lookupProp ps ''id'')])"
      using catchHandler_single[of "Obj ps", OF _ m _ n] by simp
    then show ?thesis unfolding s p by (simp add: recover_def)
  qed
  from d code s noexec entries single show ?thesis by blast
qed

text \<open>The theorem in the example environment, at a single request and at a batch sent over
  the unconnected socket 3.\<close>

theorem unconnected_socket_times_out_witness:
  "jsonParse exampleEnv rawBlockNumberRequest =
     Inr (Obj [(''id'', Num ''7''), (''method'', Str ''eth_blockNumber'')]) \<and>
   jsonParse exampleEnv rawBatchRequest =
     Inr (Arr [Obj [(''id'', Num ''1''), (''method'', Str ''eth_sendTransaction''), (''params'', Arr [])],
               Obj [(''id'', Num ''2''), (''method'', Str ''eth_accounts'')]]) \<and>
   \<not> isConnected exampleEnv (conn_socket (exampleConn 3)) \<and>
   toString (lookupProp [(''id'', Num ''7''), (''method'', Str ''eth_blockNumber'')] ''method'') =
     Inr ''eth_blockNumber'' \<and>
   dispatchRequest exampleEnv (Some (exampleConn 3)) rawBlockNumberRequest =
     ([], Rejected (Thrown METHOD_TIMEOUT)) \<and>
   sendRequest exampleEnv True 3 (Fulfilled (Some (exampleConn 3))) rawBlockNumberRequest =
     ([LogError (Thrown METHOD_TIMEOUT),
       SetReturnValue 3
         (Obj [(''jsonrpc'', Str ''2.0''), (''code'', Num ''-32603''),
               (''error'', Obj [(''message'',
                  Str ''Request timed out for method  'eth_blockNumber'.'')]),
               (''id'', Num ''7'')])],
      Fulfilled ()) \<and>
   dispatchRequest exampleEnv (Some (exampleConn 3)) rawBatchRequest =
     ([], Rejected (Thrown METHOD_TIMEOUT)) \<and>
   sendRequest exampleEnv False 3 (Fulfilled (Some (exampleConn 3))) rawBatchRequest =
     ([LogError (Thrown METHOD_TIMEOUT),
       SendData 3
         (Arr [Obj [(''jsonrpc'', Str ''2.0''), (''code'', Num ''-32603''),
                    (''error'', Obj [(''message'',
                       Str ''Request timed out for method  'eth_sendTransaction'.'')]),
                    (''id'', Num ''1'')],
               Obj [(''jsonrpc'', Str ''2.0''), (''code'', Num ''-32603''),
                    (''error'', Obj [(''message'',
                       Str ''Request timed out for method  'eth_accounts'.'')]),
                    (''id'', Num ''2'')]])],
      Fulfilled ())"
proof -
  let ?p = "[(''id'', Num ''7''), (''method'', Str ''eth_blockNumber'')]"
  let ?ps = "[Obj [(''id'', Num ''1''), (''method'', Str ''eth_sendTransaction''), (''params'', Arr [])],
              Obj [(''id'', Num ''2''), (''method'', Str ''eth_accounts'')]]"
  have h0: "jsonParse exampleEnv rawBlockNumberRequest = Inr (Obj ?p)"
    by (simp add: exampleEnv_def exampleParse_def rawBlockNumberRequest_def rawAdminRequest_def
        rawBatchRequest_def)
  have h1: "jsonParse exampleEnv rawBatchRequest = Inr (Arr ?ps)"
    by (simp add: exampleEnv_def exampleParse_def rawBatch_neq)
  have h2: "\<not> isConnected exampleEnv (conn_socket (exampleConn 3))"
    by (simp add: exampleEnv_def exampleConn_def)
  have h3: "toString (lookupProp ?p ''method'') = Inr ''eth_blockNumber''"
    by (simp add: lookupProp_def)
  note single = unconnected_socket_times_out[OF h0 h2, of True 3 ?p "''eth_blockNumber''"]
  note batch = unconnected_socket_times_out[OF h1 h2, of False 3]
  from single have a: "dispatchRequest exampleEnv (Some (exampleConn 3)) rawBlockNumberRequest =
     ([], Rejected (Thrown METHOD_TIMEOUT))" by blast
  from single h3 have "sendRequest exampleEnv True 3 (Fulfilled (Some (exampleConn 3)))
      rawBlockNumberRequest =
              (LogError (Thrown METHOD_TIMEOUT) #
               deliver True 3
                 (Obj [(''jsonrpc'', Str ''2.0''), (''code'', Num ''-32603''),
                       (''error'', Obj [(''message'',
                          Str (replaceQuoted ''Request timed out for method  '__method__'.''
                                 ([CHR 0x27] @ ''eth_blockNumber'' @ [CHR 0x27])))]),
                       (''id'', lookupProp ?p ''id'')]),
               Fulfilled ())" by blast
  then have b: "sendRequest exampleEnv True 3 (Fulfilled (Some (exampleConn 3)))
      rawBlockNumberRequest =
     ([LogError (Thrown METHOD_TIMEOUT),
       SetReturnValue 3
         (Obj [(''jsonrpc'', Str ''2.0''), (''code'', Num ''-32603''),
               (''error'', Obj [(''message'',
                  Str ''Request timed out for method  'eth_blockNumber'.'')]),
               (''id'', Num ''7'')])],
      Fulfilled ())"
    by (simp add: deliver_def lookupProp_def replaceQuoted_def isWordChar_def)
  from batch have c: "dispatchRequest exampleEnv (Some (exampleConn 3)) rawBatchRequest =
     ([], Rejected (Thrown METHOD_TIMEOUT))" by blast
  from batch have "sendRequest exampleEnv False 3 (Fulfilled (Some (exampleConn 3))) rawBatchRequest =
      recover False 3 (Arr ?ps) (Thrown METHOD_TIMEOUT)" by blast
  then have e: "sendRequest exampleEnv False 3 (Fulfilled (Some (exampleConn 3))) rawBatchRequest =
     ([LogError (Thrown METHOD_TIMEOUT),
       SendData 3
         (Arr [Obj [(''jsonrpc'', Str ''2.0''), (''code'', Num ''-32603''),
                    (''error'', Obj [(''message'',
                       Str ''Request timed out for method  'eth_sendTransaction'.'')]),
                    (''id'', Num ''1'')],
               Obj [(''jsonrpc'', Str ''2.0''), (''code'', Num ''-32603''),
                    (''error'', Obj [(''message'',
                       Str ''Request timed out for method  'eth_accounts'.'')]),
                    (''id'', Num ''2'')]])],
      Fulfilled ())"
    by (simp add: recover_def catchHandler_def METHOD_TIMEOUT_def makeErrorResponsePayload_def
        makeErrorEntry_def finishErrorEntry_def extendObj_def deliver_def lookupProp_def
        replaceQuoted_def isWordChar_def Let_def)
  from h0 h1 h2 h3 a b c e show ?thesis by blast
qed

section \<open>An error attached by the sanitizer\<close>

text \<open>
  Claim C6, as the code has it. When the sanitizer leaves a truthy \<^verbatim>\<open>error\<close> on a single
  payload, the second step of \<^verbatim>\<open>_sendRequest\<close> throws it: no \<^verbatim>\<open>exec\<close> is called, and the
  error goes to the \<^verbatim>\<open>.catch\<close> handler, which logs it. What the caller of a request object
  receives depends on the message of the error (the error itself when it is a string). If the
  message is a non-empty string and the method of the request has a string form, the caller
  receives \<^verbatim>\<open>{jsonrpc: "2.0", code: C, error: {message: M}, id: I}\<close>, where \<open>C\<close> is the code of
  the error, \<open>I\<close> the id of the request and \<open>M\<close> the message with its first match of
  \<^verbatim>\<open>/'[a-z_]*'/i\<close> (a word in single quotes) replaced by the quoted method name, read as a
  replacement pattern. If the message is missing, empty or otherwise falsy, the caller receives
  \<^verbatim>\<open>{jsonrpc: "2.0", message: m, code: C, id: I}\<close>, which has no \<^verbatim>\<open>error\<close> field. If the
  message is truthy and neither a string nor an array, the handler itself throws and the caller
  receives nothing.
\<close>

theorem sanitize_error_short_circuits:
  assumes "jsonParse env raw = Inr payload"
    and "isConnected env (conn_socket conn)"
    and "\<not> isArray payload"
    and "sanitizePayload (base env) conn payload = finalPayload"
    and "\<not> isArray finalPayload"
    and "getProp finalPayload ''error'' = Inr err"
    and "truthy err"
  shows "dispatchRequest env (Some conn) raw = ([], Rejected (Thrown err)) \<and>
         sendRequest env isSync ownerId (Fulfilled (Some conn)) raw =
           recover isSync ownerId payload (Thrown err) \<and>
         (\<forall>name c p. Exec name c p \<notin>
            set (fst (sendRequest env isSync ownerId (Fulfilled (Some conn)) raw))) \<and>
         (\<exists>m. errMessage (Thrown err) = Inr m) \<and>
         errCode (Thrown err) = Inr (field err ''code'') \<and>
         (payload = Obj ps \<and> errMessage (Thrown err) = Inr (Str s) \<and> s \<noteq> [] \<and>
          toString (lookupProp ps ''method'') = Inr name \<longrightarrow>
            sendRequest env isSync ownerId (Fulfilled (Some conn)) raw =
              (LogError (Thrown err) #
               deliver isSync ownerId
                 (Obj [(''jsonrpc'', Str ''2.0''), (''code'', field err ''code''),
                       (''error'', Obj [(''message'',
                          Str (replaceQuoted s ([CHR 0x27] @ name @ [CHR 0x27])))]),
                       (''id'', lookupProp ps ''id'')]),
               Fulfilled ())) \<and>
         (payload = Obj ps \<and> errMessage (Thrown err) = Inr m \<and> \<not> truthy m \<longrightarrow>
            sendRequest env isSync ownerId (Fulfilled (Some conn)) raw =
              (LogError (Thrown err) #
               deliver isSync ownerId
                 (Obj [(''jsonrpc'', Str ''2.0''), (''message'', m), (''code'', field err ''code''),
                       (''id'', lookupProp ps ''id'')]),
               Fulfilled ())) \<and>
         (payload = Obj ps \<and> errMessage (Thrown err) = Inr m \<and> truthy m \<and>
          (case m of Str t \<Rightarrow> False | Arr xs \<Rightarrow> False | _ \<Rightarrow> True) \<longrightarrow>
            (\<exists>x. sendRequest env isSync ownerId (Fulfilled (Some conn)) raw =
                    ([LogError (Thrown err)], Rejected x)))"
proof -
  let ?run = "sendRequest env isSync ownerId (Fulfilled (Some conn)) raw"
  have san: "sanitizeRequestPayload env conn payload = Inr finalPayload"
    using assms(3,4) by (cases payload) simp_all
  have d: "dispatchRequest env (Some conn) raw = ([], Rejected (Thrown err))"
    using assms(1,2,5,6,7) by (simp add: dispatchRequest_def san)
  have s: "?run = recover isSync ownerId payload (Thrown err)"
    by (rule sendRequest_rejected[OF assms(1) d])
  have noexec: "\<forall>name c p. Exec name c p \<notin> set (fst ?run)"
    unfolding s by (cases "catchHandler payload (Thrown err)")
      (simp_all add: recover_def deliver_def)
  have code: "errCode (Thrown err) = Inr (field err ''code'')"
    using assms(7) by (cases err) (simp_all add: field_def)
  have msg: "\<exists>m. errMessage (Thrown err) = Inr m"
    using assms(7) by (cases err) simp_all
  have shaped: "?run =
              (LogError (Thrown err) #
               deliver isSync ownerId
                 (Obj [(''jsonrpc'', Str ''2.0''), (''code'', field err ''code''),
                       (''error'', Obj [(''message'',
                          Str (replaceQuoted s ([CHR 0x27] @ name @ [CHR 0x27])))]),
                       (''id'', lookupProp ps ''id'')]),
               Fulfilled ())"
    if "payload = Obj ps" and "errMessage (Thrown err) = Inr (Str s)" and "s \<noteq> []"
      and "toString (lookupProp ps ''method'') = Inr name"
  proof -
    have "catchHandler (Obj ps) (Thrown err) =
            Inr (Obj [(''jsonrpc'', Str ''2.0''), (''code'', field err ''code''),
                       (''error'', Obj [(''message'',
                          Str (replaceQuoted s ([CHR 0x27] @ name @ [CHR 0x27])))]),
                       (''id'', lookupProp ps ''id'')])"
      using catchHandler_single[of "Obj ps", OF _ that(2) code _ that(4)] that(3) by simp
    then show ?thesis unfolding s that(1) by (simp add: recover_def)
  qed
  have silent: "?run =
              (LogError (Thrown err) #
               deliver isSync ownerId
                 (Obj [(''jsonrpc'', Str ''2.0''), (''message'', m), (''code'', field err ''code''),
                       (''id'', lookupProp ps ''id'')]),
               Fulfilled ())"
    if "payload = Obj ps" and "errMessage (Thrown err) = Inr m" and "\<not> truthy m" for m
  proof -
    have "catchHandler (Obj ps) (Thrown err) =
            Inr (Obj [(''jsonrpc'', Str ''2.0''), (''message'', m), (''code'', field err ''code''),
                       (''id'', lookupProp ps ''id'')])"
      using catchHandler_falsy_message[of "Obj ps", OF _ that(2,3) code] by simp
    then show ?thesis unfolding s that(1) by (simp add: recover_def)
  qed
  have lost: "\<exists>x. ?run = ([LogError (Thrown err)], Rejected x)"
    if "payload = Obj ps" and em: "errMessage (Thrown err) = Inr m" and "truthy m"
      and "(case m of Str t \<Rightarrow> False | Arr xs \<Rightarrow> False | _ \<Rightarrow> True)" for m
  proof -
    have "\<exists>x. makeErrorEntry (Obj [(''message'', m), (''code'', field err ''code'')]) (Obj ps) = Inl x"
      using that(3,4)
      by (cases m; cases "toString (lookupProp ps ''method'')")
        (simp_all add: makeErrorEntry_def extendObj_def lookupProp_def Let_def)
    then obtain x where
      x: "makeErrorEntry (Obj [(''message'', m), (''code'', field err ''code'')]) (Obj ps) = Inl x"
      by blast
    have "catchHandler (Obj ps) (Thrown err) = Inl x"
      unfolding catchHandler_def em code by (simp add: makeErrorResponsePayload_def x)
    then show ?thesis unfolding s that(1) by (simp add: recover_def)
  qed
  from d s noexec msg code shaped silent lost show ?thesis by blast
qed

text \<open>The theorem in the example environment, at the three requests the base processor
  denies: \<^verbatim>\<open>admin_stop\<close>, whose error has a message, \<^verbatim>\<open>miner_stop\<close>, whose error has an empty
  message, and \<^verbatim>\<open>debug_stop\<close>, whose error has a number for a message.\<close>

theorem sanitize_error_short_circuits_witness:
  "jsonParse exampleEnv rawAdminRequest =
     Inr (Obj [(''id'', Num ''1''), (''method'', Str ''admin_stop''), (''params'', Arr [])]) \<and>
   isConnected exampleEnv (conn_socket (exampleConn 1)) \<and>
   sanitizePayload (base exampleEnv) (exampleConn 1)
       (Obj [(''id'', Num ''1''), (''method'', Str ''admin_stop''), (''params'', Arr [])]) =
     Obj [(''id'', Num ''1''), (''method'', Str ''admin_stop''), (''params'', Arr []),
          (''error'', METHOD_DENIED)] \<and>
   truthy METHOD_DENIED \<and>
   errMessage (Thrown METHOD_DENIED) = Inr (Str ''Method '__method__' not allowed.'') \<and>
   dispatchRequest exampleEnv (Some (exampleConn 1)) rawAdminRequest =
     ([], Rejected (Thrown METHOD_DENIED)) \<and>
   sendRequest exampleEnv True 1 (Fulfilled (Some (exampleConn 1))) rawAdminRequest =
     ([LogError (Thrown METHOD_DENIED),
       SetReturnValue 1
         (Obj [(''jsonrpc'', Str ''2.0''), (''code'', Num ''-32601''),
               (''error'', Obj [(''message'', Str ''Method 'admin_stop' not allowed.'')]),
               (''id'', Num ''1'')])],
      Fulfilled ()) \<and>
   jsonParse exampleEnv rawMinerRequest =
     Inr (Obj [(''id'', Num ''4''), (''method'', Str ''miner_stop'')]) \<and>
   sanitizePayload (base exampleEnv) (exampleConn 1)
       (Obj [(''id'', Num ''4''), (''method'', Str ''miner_stop'')]) =
     Obj [(''id'', Num ''4''), (''method'', Str ''miner_stop''), (''error'', silentError)] \<and>
   truthy silentError \<and>
   errMessage (Thrown silentError) = Inr (Str []) \<and>
   sendRequest exampleEnv True 1 (Fulfilled (Some (exampleConn 1))) rawMinerRequest =
     ([LogError (Thrown silentError),
       SetReturnValue 1
         (Obj [(''jsonrpc'', Str ''2.0''), (''message'', Str []), (''code'', Num ''-32601''),
               (''id'', Num ''4'')])],
      Fulfilled ()) \<and>
   jsonParse exampleEnv rawDebugRequest =
     Inr (Obj [(''id'', Num ''5''), (''method'', Str ''debug_stop'')]) \<and>
   sanitizePayload (base exampleEnv) (exampleConn 1)
       (Obj [(''id'', Num ''5''), (''method'', Str ''debug_stop'')]) =
     Obj [(''id'', Num ''5''), (''method'', Str ''debug_stop''), (''error'', numericError)] \<and>
   truthy numericError \<and>
   errMessage (Thrown numericError) = Inr (Num ''5'') \<and>
   (\<exists>x. sendRequest exampleEnv True 1 (Fulfilled (Some (exampleConn 1))) rawDebugRequest =
          ([LogError (Thrown numericError)], Rejected x))"
proof -
  let ?ps = "[(''id'', Num ''1''), (''method'', Str ''admin_stop''), (''params'', Arr [])]"
  let ?final = "Obj [(''id'', Num ''1''), (''method'', Str ''admin_stop''), (''params'', Arr []),
          (''error'', METHOD_DENIED)]"
  let ?qs = "[(''id'', Num ''4''), (''method'', Str ''miner_stop'')]"
  let ?qfinal = "Obj [(''id'', Num ''4''), (''method'', Str ''miner_stop''), (''error'', silentError)]"
  let ?rs = "[(''id'', Num ''5''), (''method'', Str ''debug_stop'')]"
  let ?rfinal = "Obj [(''id'', Num ''5''), (''method'', Str ''debug_stop''), (''error'', numericError)]"
  have h1: "jsonParse exampleEnv rawAdminRequest = Inr (Obj ?ps)"
    by (simp add: exampleEnv_def exampleParse_def)
  have h2: "isConnected exampleEnv (conn_socket (exampleConn 1))"
    by (simp add: exampleEnv_def exampleConn_def)
  have h4: "sanitizePayload (base exampleEnv) (exampleConn 1) (Obj ?ps) = ?final"
    by (simp add: exampleEnv_def exampleBase_def lookupProp_def)
  have h6: "getProp ?final ''error'' = Inr METHOD_DENIED" by (simp add: lookupProp_def)
  have h7: "truthy METHOD_DENIED" by (simp add: METHOD_DENIED_def)
  have h8: "errMessage (Thrown METHOD_DENIED) = Inr (Str ''Method '__method__' not allowed.'')"
    by (simp add: METHOD_DENIED_def lookupProp_def)
  have h9: "toString (lookupProp ?ps ''method'') = Inr ''admin_stop''"
    by (simp add: lookupProp_def)
  have h3: "\<not> isArray (Obj ?ps)" by simp
  have h5: "\<not> isArray ?final" by simp
  note admin = sanitize_error_short_circuits[OF h1 h2 h3 h4 h5 h6 h7,
      of True 1 ?ps "''Method '__method__' not allowed.''" "''admin_stop''"]
  from admin have a: "dispatchRequest exampleEnv (Some (exampleConn 1)) rawAdminRequest =
     ([], Rejected (Thrown METHOD_DENIED))" by (rule conjunct1)
  have "sendRequest exampleEnv True 1 (Fulfilled (Some (exampleConn 1))) rawAdminRequest =
              (LogError (Thrown METHOD_DENIED) #
               deliver True 1
                 (Obj [(''jsonrpc'', Str ''2.0''), (''code'', field METHOD_DENIED ''code''),
                       (''error'', Obj [(''message'',
                          Str (replaceQuoted ''Method '__method__' not allowed.''
                                 ([CHR 0x27] @ ''admin_stop'' @ [CHR 0x27])))]),
                       (''id'', lookupProp ?ps ''id'')]),
               Fulfilled ())"
  proof (rule admin[THEN conjunct2, THEN conjunct2, THEN conjunct2, THEN conjunct2,
        THEN conjunct2, THEN conjunct1, THEN mp], intro conjI)
    show "Obj ?ps = Obj ?ps" by (rule refl)
    show "errMessage (Thrown METHOD_DENIED) = Inr (Str ''Method '__method__' not allowed.'')"
      by (rule h8)
    show "''Method '__method__' not allowed.'' \<noteq> []" by simp
    show "toString (lookupProp ?ps ''method'') = Inr ''admin_stop''" by (rule h9)
  qed
  then have b: "sendRequest exampleEnv True 1 (Fulfilled (Some (exampleConn 1))) rawAdminRequest =
     ([LogError (Thrown METHOD_DENIED),
       SetReturnValue 1
         (Obj [(''jsonrpc'', Str ''2.0''), (''code'', Num ''-32601''),
               (''error'', Obj [(''message'', Str ''Method 'admin_stop' not allowed.'')]),
               (''id'', Num ''1'')])],
      Fulfilled ())"
    by (simp add: deliver_def field_def lookupProp_def replaceQuoted_def isWordChar_def
        METHOD_DENIED_def)
  have m1: "jsonParse exampleEnv rawMinerRequest = Inr (Obj ?qs)"
    by (simp add: exampleEnv_def exampleParse_def rawMinerRequest_def rawAdminRequest_def
        rawBatchRequest_def rawBlockNumberRequest_def)
  have m4: "sanitizePayload (base exampleEnv) (exampleConn 1) (Obj ?qs) = ?qfinal"
    by (simp add: exampleEnv_def exampleBase_def lookupProp_def)
  have m6: "getProp ?qfinal ''error'' = Inr silentError" by (simp add: lookupProp_def)
  have m7: "truthy silentError" by (simp add: silentError_def)
  have m8: "errMessage (Thrown silentError) = Inr (Str [])"
    by (simp add: silentError_def lookupProp_def)
  have m3: "\<not> isArray (Obj ?qs)" by simp
  have m5: "\<not> isArray ?qfinal" by simp
  note miner = sanitize_error_short_circuits[OF m1 h2 m3 m4 m5 m6 m7, of True 1 ?qs _ _ "Str []"]
  have "sendRequest exampleEnv True 1 (Fulfilled (Some (exampleConn 1))) rawMinerRequest =
              (LogError (Thrown silentError) #
               deliver True 1
                 (Obj [(''jsonrpc'', Str ''2.0''), (''message'', Str []),
                       (''code'', field silentError ''code''), (''id'', lookupProp ?qs ''id'')]),
               Fulfilled ())"
  proof (rule miner[THEN conjunct2, THEN conjunct2, THEN conjunct2, THEN conjunct2,
        THEN conjunct2, THEN conjunct2, THEN conjunct1, THEN mp], intro conjI)
    show "Obj ?qs = Obj ?qs" by (rule refl)
    show "errMessage (Thrown silentError) = Inr (Str [])" by (rule m8)
    show "\<not> truthy (Str [])" by simp
  qed
  then have c: "sendRequest exampleEnv True 1 (Fulfilled (Some (exampleConn 1))) rawMinerRequest =
     ([LogError (Thrown silentError),
       SetReturnValue 1
         (Obj [(''jsonrpc'', Str ''2.0''), (''message'', Str []), (''code'', Num ''-32601''),
               (''id'', Num ''4'')])],
      Fulfilled ())"
    by (simp add: deliver_def field_def lookupProp_def silentError_def)
  have d1: "jsonParse exampleEnv rawDebugRequest = Inr (Obj ?rs)"
    by (simp add: exampleEnv_def exampleParse_def rawDebugRequest_def rawMinerRequest_def
        rawAdminRequest_def rawBatchRequest_def rawBlockNumberRequest_def)
  have d4: "sanitizePayload (base exampleEnv) (exampleConn 1) (Obj ?rs) = ?rfinal"
    by (simp add: exampleEnv_def exampleBase_def lookupProp_def)
  have d6: "getProp ?rfinal ''error'' = Inr numericError" by (simp add: lookupProp_def)
  have d7: "truthy numericError" by (simp add: numericError_def)
  have d8: "errMessage (Thrown numericError) = Inr (Num ''5'')"
    by (simp add: numericError_def lookupProp_def)
  have d3: "\<not> isArray (Obj ?rs)" by simp
  have d5: "\<not> isArray ?rfinal" by simp
  note debug = sanitize_error_short_circuits[OF d1 h2 d3 d4 d5 d6 d7, of True 1 ?rs _ _ "Num ''5''"]
  have e: "\<exists>x. sendRequest exampleEnv True 1 (Fulfilled (Some (exampleConn 1)))
           rawDebugRequest = ([LogError (Thrown numericError)], Rejected x)"
  proof (rule debug[THEN conjunct2, THEN conjunct2, THEN conjunct2, THEN conjunct2,
        THEN conjunct2, THEN conjunct2, THEN conjunct2, THEN mp], intro conjI)
    show "Obj ?rs = Obj ?rs" by (rule refl)
    show "errMessage (Thrown numericError) = Inr (Num ''5'')" by (rule d8)
    show "truthy (Num ''5'')" by simp
    show "case Num ''5'' of Str t \<Rightarrow> False | Arr xs \<Rightarrow> False | _ \<Rightarrow> True" by simp
  qed
  from h1 h2 h4 h7 h8 a b m1 m4 m7 m8 c d1 d4 d7 d8 e show ?thesis by blast
qed

text \<open>
  Claim C6 as the specification states it, for every error the sanitizer attaches, fails in its
  last clause. The base processor of the example attaches the error
  \<^verbatim>\<open>{code: -32601, message: ""}\<close> to a \<^verbatim>\<open>miner_stop\<close> request; the request is not executed,
  and what the caller receives has no \<^verbatim>\<open>error\<close> field: it is not a JSON-RPC error payload.
\<close>

theorem silent_error_counterexample:
  "jsonParse exampleEnv rawMinerRequest =
     Inr (Obj [(''id'', Num ''4''), (''method'', Str ''miner_stop'')]) \<and>
   isConnected exampleEnv (conn_socket (exampleConn 2)) \<and>
   sanitizeRequestPayload exampleEnv (exampleConn 2)
       (Obj [(''id'', Num ''4''), (''method'', Str ''miner_stop'')]) =
     Inr (Obj [(''id'', Num ''4''), (''method'', Str ''miner_stop''),
               (''error'', Obj [(''code'', Num ''-32601''), (''message'', Str [])])]) \<and>
   truthy (Obj [(''code'', Num ''-32601''), (''message'', Str [])]) \<and>
   sendRequest exampleEnv False 2 (Fulfilled (Some (exampleConn 2))) rawMinerRequest =
     ([LogError (Thrown (Obj [(''code'', Num ''-32601''), (''message'', Str [])])),
       SendData 2
         (Obj [(''jsonrpc'', Str ''2.0''), (''message'', Str []), (''code'', Num ''-32601''),
               (''id'', Num ''4'')])],
      Fulfilled ()) \<and>
   field (Obj [(''jsonrpc'', Str ''2.0''), (''message'', Str []), (''code'', Num ''-32601''),
               (''id'', Num ''4'')]) ''error'' = Undefined"
proof -
  have p: "jsonParse exampleEnv rawMinerRequest =
     Inr (Obj [(''id'', Num ''4''), (''method'', Str ''miner_stop'')])"
    by (simp add: exampleEnv_def exampleParse_def rawMinerRequest_def rawAdminRequest_def
        rawBatchRequest_def rawBlockNumberRequest_def)
  have c: "isConnected exampleEnv (conn_socket (exampleConn 2))"
    by (simp add: exampleEnv_def exampleConn_def)
  have s: "sanitizeRequestPayload exampleEnv (exampleConn 2)
       (Obj [(''id'', Num ''4''), (''method'', Str ''miner_stop'')]) =
     Inr (Obj [(''id'', Num ''4''), (''method'', Str ''miner_stop''),
               (''error'', Obj [(''code'', Num ''-32601''), (''message'', Str [])])])"
    by (simp add: exampleEnv_def exampleBase_def lookupProp_def silentError_def)
  have d: "dispatchRequest exampleEnv (Some (exampleConn 2)) rawMinerRequest =
     ([], Rejected (Thrown (Obj [(''code'', Num ''-32601''), (''message'', Str [])])))"
    using c by (simp add: dispatchRequest_def p s lookupProp_def del: sanitizeRequestPayload.simps)
  have r: "sendRequest exampleEnv False 2 (Fulfilled (Some (exampleConn 2))) rawMinerRequest =
     ([LogError (Thrown (Obj [(''code'', Num ''-32601''), (''message'', Str [])])),
       SendData 2
         (Obj [(''jsonrpc'', Str ''2.0''), (''message'', Str []), (''code'', Num ''-32601''),
               (''id'', Num ''4'')])],
      Fulfilled ())"
    unfolding sendRequest_rejected[OF p d]
    by (simp add: recover_def catchHandler_def makeErrorResponsePayload_def makeErrorEntry_def
        finishErrorEntry_def extendObj_def lookupProp_def deliver_def Let_def)
  have f: "field (Obj [(''jsonrpc'', Str ''2.0''), (''message'', Str []), (''code'', Num ''-32601''),
               (''id'', Num ''4'')]) ''error'' = Undefined"
    by (simp add: field_def lookupProp_def)
  from p c s d r f show ?thesis by simp
qed

section \<open>Replacement texts without a dollar sign\<close>

text \<open>A replacement text without a dollar sign is inserted as it is: the name of a method
  such as \<^verbatim>\<open>eth_foo\<close> takes the place of the first quoted word of the message.\<close>

lemma getSubstitution_plain:
  "CHR ''$'' \<notin> set repl \<Longrightarrow> getSubstitution m pre suf repl = repl"
  by (induction m pre suf repl rule: getSubstitution.induct) auto

lemma replaceQuoted_plain:
  assumes "searchQuoted [] s = Some (pre, m, suf)" and "CHR ''$'' \<notin> set name"
  shows "replaceQuoted s ([CHR 0x27] @ name @ [CHR 0x27]) = pre @ [CHR 0x27] @ name @ [CHR 0x27] @ suf"
proof -
  have "CHR ''$'' \<notin> set ([CHR 0x27] @ name @ [CHR 0x27])" using assms(2) by simp
  from getSubstitution_plain[OF this] assms(1) show ?thesis
    by (simp add: replaceQuoted_def)
qed

lemma searchQuoted_METHOD_DENIED:
  "searchQuoted [] ''Method '__method__' not allowed.'' =
     Some (''Method '', [CHR 0x27] @ ''__method__'' @ [CHR 0x27], '' not allowed.'')"
  by (simp add: isWordChar_def)


section \<open>Filling the method name into an error message\<close>

text \<open>
  Claim C7. \<^verbatim>\<open>_makeErrorResponsePayload\<close> passes \<^verbatim>\<open>"'" + item.method + "'"\<close> to
  \<^verbatim>\<open>String.prototype.replace\<close> as the replacement, where a dollar sign is not an ordinary
  character. Denying \<^verbatim>\<open>eth_foo\<close> gives \<^verbatim>\<open>Method 'eth_foo' not allowed.\<close>, as the claim says;
  denying a method named \<^verbatim>\<open>$&\<close> gives \<^verbatim>\<open>Method ''__method__'' not allowed.\<close>, the placeholder
  quoted once more, and not the method's name.
\<close>

theorem dollar_in_method_name_evaluation:
  "makeErrorResponsePayload (Obj [(''id'', Num ''1''), (''method'', Str ''$&''), (''params'', Arr [])])
       METHOD_DENIED =
     Inr (Obj [(''jsonrpc'', Str ''2.0''), (''code'', Num ''-32601''),
               (''error'', Obj [(''message'',
                  Str (''Method '' @ [CHR 0x27, CHR 0x27] @ ''__method__'' @ [CHR 0x27, CHR 0x27] @
                       '' not allowed.''))]),
               (''id'', Num ''1'')]) \<and>
   makeErrorResponsePayload (Obj [(''id'', Num ''1''), (''method'', Str ''eth_foo''), (''params'', Arr [])])
       METHOD_DENIED =
     Inr (Obj [(''jsonrpc'', Str ''2.0''), (''code'', Num ''-32601''),
               (''error'', Obj [(''message'', Str ''Method 'eth_foo' not allowed.'')]),
               (''id'', Num ''1'')])"
  by (simp add: makeErrorResponsePayload_def makeErrorEntry_def finishErrorEntry_def
      extendObj_def lookupProp_def replaceQuoted_def isWordChar_def METHOD_DENIED_def Let_def)


section \<open>Properties of the connection table\<close>

lemma set_tableItems: "set (tableItems tbl) = ran (map_of tbl)"
  by (simp add: tableItems_def ran_map_of)

lemma in_tableItems: "c \<in> set (tableItems tbl) \<longleftrightarrow> (\<exists>k. map_of tbl k = Some c)"
  by (auto simp: set_tableItems ran_def)

section \<open>Destroying a connection\<close>



section \<open>The node is stopping\<close>

text \<open>
  Claim C8, as the code has it. When the node's state becomes \<^verbatim>\<open>stopping\<close>, \<^verbatim>\<open>disconnect\<close> is
  called on the socket of every connection of the table whose socket is connected, whatever
  happens to the others, and on no other socket. The owner of a connection is told that its
  channel is not writable (\<^verbatim>\<open>setWritable\<close>, always with \<^verbatim>\<open>false\<close>) exactly when the socket of
  the connection was connected and its own \<^verbatim>\<open>disconnect\<close> has succeeded: the owner of a socket
  whose \<^verbatim>\<open>disconnect\<close> fails, or does not end, is not told. An error is logged exactly when
  the \<^verbatim>\<open>disconnect\<close> of some connected socket fails; it is the error of such a failure, and
  at most one error is logged however many sockets fail. A connection whose socket is not
  connected is left alone, and nothing else is done: no socket is destroyed.
\<close>

theorem stopping_disconnects_connected_sockets:
  "(\<forall>s. SocketDisconnect s \<in> set (onNodeStateChanged connected disconnecting b NodeStopping) \<longleftrightarrow>
      (\<exists>ownerId c. map_of (connections b) ownerId = Some c \<and> conn_socket c = s \<and> connected s)) \<and>
   (\<forall>ownr v. SetWritable ownr v \<in> set (onNodeStateChanged connected disconnecting b NodeStopping) \<longleftrightarrow>
      \<not> v \<and> (\<exists>ownerId c. map_of (connections b) ownerId = Some c \<and> conn_owner c = ownr \<and>
                connected (conn_socket c) \<and> disconnecting (conn_socket c) = Fulfilled ())) \<and>
   (\<forall>x. LogError x \<in> set (onNodeStateChanged connected disconnecting b NodeStopping) \<longrightarrow>
      (\<exists>ownerId c. map_of (connections b) ownerId = Some c \<and> connected (conn_socket c) \<and>
         disconnecting (conn_socket c) = Rejected x)) \<and>
   ((\<exists>x. LogError x \<in> set (onNodeStateChanged connected disconnecting b NodeStopping)) \<longleftrightarrow>
      (\<exists>ownerId c x. map_of (connections b) ownerId = Some c \<and> connected (conn_socket c) \<and>
         disconnecting (conn_socket c) = Rejected x)) \<and>
   length (filter isLogError (onNodeStateChanged connected disconnecting b NodeStopping)) \<le> 1 \<and>
   list_all (\<lambda>e. case e of SocketDisconnect s \<Rightarrow> True | SetWritable ownr v \<Rightarrow> True
                  | LogError x \<Rightarrow> True | _ \<Rightarrow> False)
     (onNodeStateChanged connected disconnecting b NodeStopping)"
proof -
  define live where "live = filter (\<lambda>item. connected (conn_socket item)) (tableItems (connections b))"
  define rejs where "rejs = concat (map (\<lambda>item. rejection (disconnecting (conn_socket item))) live)"
  define logged where "logged = (case rejs of [] \<Rightarrow> [] | x # xs \<Rightarrow> [LogError x])"
  have evs: "onNodeStateChanged connected disconnecting b NodeStopping =
      map (\<lambda>item. SocketDisconnect (conn_socket item)) live @
      map (\<lambda>item. SetWritable (conn_owner item) False)
        (filter (\<lambda>item. disconnecting (conn_socket item) = Fulfilled ()) live) @ logged"
    by (simp add: onNodeStateChanged_def live_def rejs_def logged_def Let_def)
  have live: "c \<in> set live \<longleftrightarrow> (\<exists>k. map_of (connections b) k = Some c) \<and> connected (conn_socket c)" for c
    by (auto simp: live_def in_tableItems)
  have rej: "rejection p = [x] \<longleftrightarrow> p = Rejected x" "x \<in> set (rejection p) \<longleftrightarrow> p = Rejected x"
    for p :: "unit promise" and x
    by (cases p; auto)+
  have rejs: "x \<in> set rejs \<longleftrightarrow> (\<exists>c\<in>set live. disconnecting (conn_socket c) = Rejected x)" for x
    by (auto simp: rejs_def rej)
  have logged: "LogError x \<in> set logged \<Longrightarrow> x \<in> set rejs"
    "(\<exists>x. LogError x \<in> set logged) \<longleftrightarrow> (\<exists>x. x \<in> set rejs)"
    "length (filter isLogError logged) \<le> 1"
    "SocketDisconnect s \<notin> set logged" "SetWritable ownr v \<notin> set logged"
    "list_all (\<lambda>e. case e of SocketDisconnect s \<Rightarrow> True | SetWritable ownr v \<Rightarrow> True
                  | LogError x \<Rightarrow> True | _ \<Rightarrow> False) logged"
    for x s ownr v
    by (cases rejs; auto simp: logged_def)+
  have 1: "SocketDisconnect s \<in> set (onNodeStateChanged connected disconnecting b NodeStopping) \<longleftrightarrow>
      (\<exists>ownerId c. map_of (connections b) ownerId = Some c \<and> conn_socket c = s \<and> connected s)" for s
  proof -
    have "SocketDisconnect s \<in> set (onNodeStateChanged connected disconnecting b NodeStopping) \<longleftrightarrow>
            (\<exists>c\<in>set live. conn_socket c = s)"
      unfolding evs using logged(4) by auto
    also have "\<dots> \<longleftrightarrow> (\<exists>ownerId c. map_of (connections b) ownerId = Some c \<and> conn_socket c = s \<and> connected s)"
      using live by blast
    finally show ?thesis .
  qed
  have 2: "SetWritable ownr v \<in> set (onNodeStateChanged connected disconnecting b NodeStopping) \<longleftrightarrow>
      \<not> v \<and> (\<exists>ownerId c. map_of (connections b) ownerId = Some c \<and> conn_owner c = ownr \<and>
                connected (conn_socket c) \<and> disconnecting (conn_socket c) = Fulfilled ())" for ownr v
  proof -
    have "SetWritable ownr v \<in> set (onNodeStateChanged connected disconnecting b NodeStopping) \<longleftrightarrow>
            \<not> v \<and> (\<exists>c\<in>set live. conn_owner c = ownr \<and> disconnecting (conn_socket c) = Fulfilled ())"
      unfolding evs using logged(5) by auto
    also have "\<dots> \<longleftrightarrow> \<not> v \<and> (\<exists>ownerId c. map_of (connections b) ownerId = Some c \<and> conn_owner c = ownr \<and>
                connected (conn_socket c) \<and> disconnecting (conn_socket c) = Fulfilled ())"
      using live by blast
    finally show ?thesis .
  qed
  have inlog: "LogError x \<in> set (onNodeStateChanged connected disconnecting b NodeStopping) \<longleftrightarrow>
      LogError x \<in> set logged" for x
    unfolding evs by auto
  have 3: "\<exists>ownerId c. map_of (connections b) ownerId = Some c \<and> connected (conn_socket c) \<and>
         disconnecting (conn_socket c) = Rejected x"
    if "LogError x \<in> set (onNodeStateChanged connected disconnecting b NodeStopping)" for x
  proof -
    from that have "x \<in> set rejs" using inlog logged(1) by blast
    then show ?thesis using rejs live by blast
  qed
  have 4: "(\<exists>x. LogError x \<in> set (onNodeStateChanged connected disconnecting b NodeStopping)) \<longleftrightarrow>
      (\<exists>ownerId c x. map_of (connections b) ownerId = Some c \<and> connected (conn_socket c) \<and>
         disconnecting (conn_socket c) = Rejected x)"
  proof -
    have "(\<exists>x. LogError x \<in> set (onNodeStateChanged connected disconnecting b NodeStopping)) \<longleftrightarrow>
            (\<exists>x. x \<in> set rejs)"
      using inlog logged(2) by simp
    also have "\<dots> \<longleftrightarrow> (\<exists>ownerId c x. map_of (connections b) ownerId = Some c \<and>
         connected (conn_socket c) \<and> disconnecting (conn_socket c) = Rejected x)"
      using rejs live by blast
    finally show ?thesis .
  qed
  have 5: "length (filter isLogError (onNodeStateChanged connected disconnecting b NodeStopping)) \<le> 1"
  proof -
    have "filter isLogError (map (\<lambda>item. SocketDisconnect (conn_socket item)) xs) = []" for xs
      by (induction xs) simp_all
    moreover have "filter isLogError (map (\<lambda>item. SetWritable (conn_owner item) False) xs) = []" for xs
      by (induction xs) simp_all
    ultimately show ?thesis
      unfolding evs filter_append using logged(3) by simp
  qed
  have 6: "list_all (\<lambda>e. case e of SocketDisconnect s \<Rightarrow> True | SetWritable ownr v \<Rightarrow> True
                  | LogError x \<Rightarrow> True | _ \<Rightarrow> False)
     (onNodeStateChanged connected disconnecting b NodeStopping)"
    unfolding evs using logged(6) by (auto simp: list_all_iff)
  from 1 2 3 4 5 6 show ?thesis by blast
qed

text \<open>The theorem in the example backend: sockets 1 and 2 are connected, socket 1 fails to
  disconnect, socket 3 is not connected.\<close>

theorem stopping_disconnects_connected_sockets_witness:
  "onNodeStateChanged (isConnected exampleEnv) exampleDisconnecting exampleBackend NodeStopping =
     [SocketDisconnect 1, SocketDisconnect 2, SetWritable 2 False, LogError (Thrown (Str ''EPIPE''))] \<and>
   LogError (Thrown (Str ''EPIPE'')) \<in>
     set (onNodeStateChanged (isConnected exampleEnv) exampleDisconnecting exampleBackend NodeStopping) \<and>
   (\<exists>ownerId c. map_of (connections exampleBackend) ownerId = Some c \<and>
      isConnected exampleEnv (conn_socket c) \<and>
      exampleDisconnecting (conn_socket c) = Rejected (Thrown (Str ''EPIPE''))) \<and>
   (\<exists>ownerId c. map_of (connections exampleBackend) ownerId = Some c \<and> conn_owner c = 2 \<and>
      isConnected exampleEnv (conn_socket c) \<and> exampleDisconnecting (conn_socket c) = Fulfilled ()) \<and>
   \<not> (\<exists>ownerId c. map_of (connections exampleBackend) ownerId = Some c \<and> conn_owner c = 1 \<and>
      isConnected exampleEnv (conn_socket c) \<and> exampleDisconnecting (conn_socket c) = Fulfilled ()) \<and>
   \<not> (\<exists>ownerId c. map_of (connections exampleBackend) ownerId = Some c \<and> conn_socket c = 3 \<and>
      isConnected exampleEnv 3)"
proof -
  have evs: "onNodeStateChanged (isConnected exampleEnv) exampleDisconnecting exampleBackend NodeStopping =
      [SocketDisconnect 1, SocketDisconnect 2, SetWritable 2 False, LogError (Thrown (Str ''EPIPE''))]"
    by (simp add: onNodeStateChanged_def tableItems_def exampleBackend_def exampleEnv_def
        exampleConn_def exampleDisconnecting_def Let_def)
  note t = stopping_disconnects_connected_sockets
             [of "isConnected exampleEnv" exampleDisconnecting exampleBackend]
  have l: "LogError (Thrown (Str ''EPIPE'')) \<in>
     set (onNodeStateChanged (isConnected exampleEnv) exampleDisconnecting exampleBackend NodeStopping)"
    unfolding evs by simp
  from t[THEN conjunct2, THEN conjunct2, THEN conjunct1, THEN spec, THEN mp, OF l]
  have a: "\<exists>ownerId c. map_of (connections exampleBackend) ownerId = Some c \<and>
      isConnected exampleEnv (conn_socket c) \<and>
      exampleDisconnecting (conn_socket c) = Rejected (Thrown (Str ''EPIPE''))" .
  have "SetWritable 2 False \<in>
     set (onNodeStateChanged (isConnected exampleEnv) exampleDisconnecting exampleBackend NodeStopping)"
    "SetWritable 1 False \<notin>
     set (onNodeStateChanged (isConnected exampleEnv) exampleDisconnecting exampleBackend NodeStopping)"
    "SocketDisconnect 3 \<notin>
     set (onNodeStateChanged (isConnected exampleEnv) exampleDisconnecting exampleBackend NodeStopping)"
    unfolding evs by simp_all
  with t have b: "\<exists>ownerId c. map_of (connections exampleBackend) ownerId = Some c \<and> conn_owner c = 2 \<and>
      isConnected exampleEnv (conn_socket c) \<and> exampleDisconnecting (conn_socket c) = Fulfilled ()"
    and c: "\<not> (\<exists>ownerId c. map_of (connections exampleBackend) ownerId = Some c \<and> conn_owner c = 1 \<and>
      isConnected exampleEnv (conn_socket c) \<and> exampleDisconnecting (conn_socket c) = Fulfilled ())"
    and d: "\<not> (\<exists>ownerId c. map_of (connections exampleBackend) ownerId = Some c \<and> conn_socket c = 3 \<and>
      isConnected exampleEnv 3)"
    by blast+
  from evs l a b c d show ?thesis by blast
qed

text \<open>
  Claim C8 as the specification states it fails: not every owner of a connected socket is
  told. In the example backend the socket of owner 1 is connected and its \<^verbatim>\<open>disconnect\<close>
  fails: the socket of owner 2 is disconnected and owner 2 is told, the failure is logged,
  and owner 1 is never sent \<^verbatim>\<open>setWritable\<close>.
\<close>

theorem failed_disconnect_counterexample:
  "map_of (connections exampleBackend) 1 = Some (exampleConn 1) \<and>
   isConnected exampleEnv (conn_socket (exampleConn 1)) \<and>
   conn_owner (exampleConn 1) = 1 \<and>
   exampleDisconnecting (conn_socket (exampleConn 1)) = Rejected (Thrown (Str ''EPIPE'')) \<and>
   SocketDisconnect (conn_socket (exampleConn 1)) \<in>
     set (onNodeStateChanged (isConnected exampleEnv) exampleDisconnecting exampleBackend NodeStopping) \<and>
   (\<forall>v. SetWritable 1 v \<notin>
     set (onNodeStateChanged (isConnected exampleEnv) exampleDisconnecting exampleBackend NodeStopping))"
  by (simp add: onNodeStateChanged_def tableItems_def exampleBackend_def exampleEnv_def
      exampleConn_def exampleDisconnecting_def Let_def)

section \<open>What every step of a world preserves\<close>

lemma setPc_simps [simp]:
  "connections (setPc i c w) = connections w"
  "connectionPromise (setPc i c w) = connectionPromise w"
  "pendings (setPc i c w) = pendings w"
  "connectedSockets (setPc i c w) = connectedSockets w"
  "node (setPc i c w) = node w"
  "trace (setPc i c w) = trace w"
  "invocations (setPc i c w) = (invocations w)[i := (invocations w ! i)\<lparr>i_pc := c\<rparr>]"
  by (simp_all add: setPc_def)

lemma setPhase_simps [simp]:
  "connections (setPhase p ph w) = connections w"
  "connectionPromise (setPhase p ph w) = connectionPromise w"
  "invocations (setPhase p ph w) = invocations w"
  "connectedSockets (setPhase p ph w) = connectedSockets w"
  "node (setPhase p ph w) = node w"
  "trace (setPhase p ph w) = trace w"
  "pendings (setPhase p ph w) = (pendings w)[p := (pendings w ! p)\<lparr>p_phase := ph\<rparr>]"
  by (simp_all add: setPhase_def)



lemma connectsFor_append [simp]:
  "connectsFor ownerId (tr @ [e]) = connectsFor ownerId tr + (if isConnectFor ownerId e then 1 else 0)"
  by (simp add: connectsFor_def)



















section \<open>Concurrent calls share one connect\<close>






end
